theory Spec2Isabelle
  imports Main
begin

text \<open>
  A shallow embedding of the command-line assistant: the line handler of the terminal
  with its persona, mock and exit commands, the turn that calls the completion gateway,
  renders and logs, the logger with its three file modes, and the script that prunes old
  log files. Effects are explicit: a handler returns its outcome, the new state and the
  events it caused, in order.
\<close>

section \<open>JavaScript primitives used by the session engine\<close>

text \<open>
  Input lines are modelled as \<^typ>\<open>string\<close>. The model follows the JavaScript string
  methods on ASCII text: \<open>trim\<close> strips the ASCII white space characters, \<open>toLowerCase\<close>
  maps \<open>A\<close>..\<open>Z\<close> to \<open>a\<close>..\<open>z\<close>, and the regular expression \<open>/[a-zA-Z0-9]/\<close> looks
  for an ASCII letter or digit.
\<close>

definition isSpace :: "char \<Rightarrow> bool" where
  "isSpace c = (c \<in> {CHR '' '', CHR 0x09, CHR 0x0A, CHR 0x0B, CHR 0x0C, CHR 0x0D})"

definition trim :: "string \<Rightarrow> string" where
  "trim s = rev (dropWhile isSpace (rev (dropWhile isSpace s)))"

definition isUpper :: "char \<Rightarrow> bool" where
  "isUpper c = (65 \<le> (of_char c :: nat) \<and> (of_char c :: nat) \<le> 90)"

definition isLower :: "char \<Rightarrow> bool" where
  "isLower c = (97 \<le> (of_char c :: nat) \<and> (of_char c :: nat) \<le> 122)"

definition isDigit :: "char \<Rightarrow> bool" where
  "isDigit c = (48 \<le> (of_char c :: nat) \<and> (of_char c :: nat) \<le> 57)"

definition toLowerChar :: "char \<Rightarrow> char" where
  "toLowerChar c = (if isUpper c then char_of ((of_char c :: nat) + 32) else c)"

definition toLowerCase :: "string \<Rightarrow> string" where
  "toLowerCase s = map toLowerChar s"

text \<open>\<open>/[a-zA-Z0-9]/.test(s)\<close>\<close>

definition hasAlnum :: "string \<Rightarrow> bool" where
  "hasAlnum s = list_ex (\<lambda>c. isLower c \<or> isUpper c \<or> isDigit c) s"

definition startsWith :: "string \<Rightarrow> string \<Rightarrow> bool" where
  "startsWith s p = (take (length p) s = p)"

text \<open>\<open>s.slice(1)\<close>\<close>

definition slice1 :: "string \<Rightarrow> string" where
  "slice1 s = drop 1 s"

text \<open>\<open>s.split(' ')\<close>: the pieces between single spaces; an empty string gives one empty piece.\<close>

fun split_space :: "string \<Rightarrow> string list" where
  "split_space [] = [[]]"
| "split_space (c # cs) =
     (if c = CHR '' '' then [] # split_space cs
      else (case split_space cs of [] \<Rightarrow> [[c]] | w # ws \<Rightarrow> (c # w) # ws))"

text \<open>\<open>xs[1]\<close>: \<open>undefined\<close> (here \<open>None\<close>) when the array has fewer than two elements.\<close>

fun index1 :: "'a list \<Rightarrow> 'a option" where
  "index1 (x # y # ys) = Some y"
| "index1 xs = None"

text \<open>A value used as a property key or in a template string: \<open>undefined\<close> reads "undefined".\<close>

fun js_string :: "string option \<Rightarrow> string" where
  "js_string None = ''undefined''"
| "js_string (Some s) = s"

text \<open>
  The values a property read on one of the object literals can give: \<open>undefined\<close>, the
  string stored under the key, or a member inherited from \<open>Object.prototype\<close> (a function
  or object, named here by its key). Object literals inherit from \<open>Object.prototype\<close>,
  so \<open>obj[key]\<close> finds those members too.
\<close>

datatype jsval = Undefined | Str string | Inherited string

fun truthy :: "jsval \<Rightarrow> bool" where
  "truthy Undefined = False"
| "truthy (Str s) = (s \<noteq> [])"
| "truthy (Inherited k) = True"

definition object_prototype_keys :: "string list" where
  "object_prototype_keys =
     [''constructor'', ''__defineGetter__'', ''__defineSetter__'', ''hasOwnProperty'',
      ''__lookupGetter__'', ''__lookupSetter__'', ''isPrototypeOf'', ''propertyIsEnumerable'',
      ''toString'', ''valueOf'', ''__proto__'', ''toLocaleString'']"

definition getProperty :: "(string \<times> string) list \<Rightarrow> string \<Rightarrow> jsval" where
  "getProperty obj k =
     (case map_of obj k of
        Some v \<Rightarrow> Str v
      | None \<Rightarrow> if k \<in> set object_prototype_keys then Inherited k else Undefined)"

text \<open>\<open>a || b\<close>\<close>

definition js_or :: "jsval \<Rightarrow> jsval \<Rightarrow> jsval" where
  "js_or a b = (if truthy a then a else b)"

section \<open>Configuration (config/env.js)\<close>

text \<open>
  The persona registry is the object literal \<open>config.personas\<close>; the other fields are read
  from the environment, with the defaults of \<open>default_config\<close>. \<open>logging_directory\<close> holds
  the value of \<open>path.resolve(config.logging.directory)\<close>, which is \<open>/app/logs\<close> for the
  default \<open>logs\<close> in the working directory \<open>/app\<close>; the temperature is left out. The runtime-mutable field
  \<open>config.mock\<close> is part of the state below.
\<close>

definition personas :: "(string \<times> string) list" where
  "personas =
     [(''sas'', ''You are a helpful SAS programming assistant. Respond with clean, well-formatted explanations and SAS code.''),
      (''sql'', ''You are a knowledgeable SQL assistant. Answer queries with explanations and well-formatted SQL code.''),
      (''mentor'', ''You are a thoughtful mentor. Provide practical career and technical advice with empathy and clarity.''),
      (''debugger'', ''You are a code reviewer. Explain and help fix bugs in SAS code step by step.''),
      (''teacher'', ''You are a SAS teacher. Explain concepts slowly with analogies and beginner-friendly examples.'')]"

text \<open>
  \<open>personaWelcomeMessages\<close> in \<open>startTerminal\<close>. The light-bulb sign that starts each message
  and the typographic apostrophe are given by their UTF-8 bytes.
\<close>

definition bulb :: string where
  "bulb = [CHR 0xF0, CHR 0x9F, CHR 0x92, CHR 0xA1]"

definition apostrophe :: string where
  "apostrophe = [CHR 0xE2, CHR 0x80, CHR 0x99]"

definition personaWelcomeMessages :: "(string \<times> string) list" where
  "personaWelcomeMessages =
     [(''sas'', bulb @ '' SAS mode activated. Ask about PROC steps, data steps, or macro logic.''),
      (''sql'', bulb @ '' SQL mode activated. Ask me about queries, joins, optimization, or DDL.''),
      (''mentor'', bulb @ '' Mentor mode on. Let'' @ apostrophe @ ''s talk career paths, goals, and strategies.''),
      (''debugger'', bulb @ '' Debugger mode: I'' @ apostrophe @ ''ll help diagnose issues in your SAS code.''),
      (''teacher'', bulb @ '' Teacher mode: I'' @ apostrophe @ ''ll explain concepts clearly with beginner-friendly examples.'')]"

record config =
  model :: string
  defaultPersona :: string
  logging_enabled :: bool
  logging_mode :: string
  logging_directory :: string
  logging_filename :: string
  exitCommands :: "string list"

definition default_config :: config where
  "default_config =
     \<lparr> model = ''gpt-5-mini'', defaultPersona = ''sas'', logging_enabled = True,
       logging_mode = ''rotate'', logging_directory = ''/app/logs'',
       logging_filename = ''session.log'', exitCommands = [''exit'', ''quit'', ''q'', '':q''] \<rparr>"

section \<open>The file system and the clock, as the logger sees them\<close>

text \<open>
  \<open>denied\<close> holds the paths on which creating, truncating or appending fails (permission
  denied, disk full); the \<open>fs\<close> calls throw there.
\<close>

record filesystem =
  dirs :: "string set"
  files :: "string \<rightharpoonup> string"
  denied :: "string set"

datatype error = GatewayError string | FsError string

definition mkdirSync :: "string \<Rightarrow> filesystem \<Rightarrow> error + filesystem" where
  "mkdirSync d f = (if d \<in> denied f then Inl (FsError d) else Inr (f\<lparr>dirs := insert d (dirs f)\<rparr>))"

definition writeFileSync :: "string \<Rightarrow> string \<Rightarrow> filesystem \<Rightarrow> error + filesystem" where
  "writeFileSync p content f =
     (if p \<in> denied f then Inl (FsError p) else Inr (f\<lparr>files := (files f)(p \<mapsto> content)\<rparr>))"

definition appendFileSync :: "string \<Rightarrow> string \<Rightarrow> filesystem \<Rightarrow> error + filesystem" where
  "appendFileSync p content f =
     (if p \<in> denied f then Inl (FsError p)
      else Inr (f\<lparr>files := (files f)(p \<mapsto> (case files f p of None \<Rightarrow> content | Some old \<Rightarrow> old @ content))\<rparr>))"

text \<open>\<open>path.join(dir, name)\<close> for a resolved directory and a plain file name.\<close>

definition path_join :: "string \<Rightarrow> string \<Rightarrow> string" where
  "path_join d n = d @ ''/'' @ n"

text \<open>
  The two readings of the clock a call of the logger makes: \<open>new Date().toISOString()\<close>
  and \<open>new Date().toLocaleString()\<close>.
\<close>

record clock =
  iso :: string
  localeString :: string

text \<open>\<open>s.replace(/[:.]/g, '-')\<close>\<close>

definition replaceColonDot :: "string \<Rightarrow> string" where
  "replaceColonDot s = map (\<lambda>c. if c = CHR '':'' \<or> c = CHR ''.'' then CHR ''-'' else c) s"

section \<open>Events and state of a session\<close>

record request =
  req_model :: string
  system :: jsval
  user :: string

type_synonym gateway = "request \<Rightarrow> error + string"

record logEntry =
  input :: string
  response :: string
  persona :: string

datatype message =
    EmptyHint | InvalidHint
  | PersonaSwitched string | Welcome jsval | UnknownPersona string
  | PersonasHeader | PersonaLine string string | BlankLine
  | HelpText
  | MockOn | MockOff | MockStatus bool | MockUsage
  | Farewell | SessionEnded

datatype event =
    Print message | SetPrompt string | Prompt | Close
  | GatewayCall request | Render string string
  | Mkdir string | WriteFile string string | AppendFile string string
  | ConsoleError error

datatype outcome = Returned | Threw error

record state =
  activePersona :: string
  mock :: bool
  logPath :: string
  initialized :: bool
  fs :: filesystem

section \<open>The logger (utils/logger.js)\<close>

definition ensureDir :: "string \<Rightarrow> filesystem \<Rightarrow> (error + filesystem) \<times> event list" where
  "ensureDir d f = (if d \<in> dirs f then (Inr f, []) else (mkdirSync d f, [Mkdir d]))"

text \<open>The \<open>switch (config.logging.mode)\<close>: the path chosen, and the truncation under \<open>overwrite\<close>.\<close>

definition selectLogPath ::
  "config \<Rightarrow> string \<Rightarrow> filesystem \<Rightarrow> string \<times> (error + filesystem) \<times> event list" where
  "selectLogPath cfg timestamp f =
     (if logging_mode cfg = ''rotate''
      then (path_join (logging_directory cfg) (''session_'' @ timestamp @ ''.log''), Inr f, [])
      else if logging_mode cfg = ''overwrite''
      then (let p = path_join (logging_directory cfg) (logging_filename cfg)
            in (p, writeFileSync p [] f, [WriteFile p []]))
      else (path_join (logging_directory cfg) (logging_filename cfg), Inr f, []))"

definition initLogFile :: "config \<Rightarrow> clock \<Rightarrow> state \<Rightarrow> outcome \<times> state \<times> event list" where
  "initLogFile cfg clk s =
     (if \<not> logging_enabled cfg \<or> initialized s then (Returned, s, [])
      else (case ensureDir (logging_directory cfg) (fs s) of
              (Inl e, evs) \<Rightarrow> (Threw e, s, evs)
            | (Inr f1, evs) \<Rightarrow>
                (case selectLogPath cfg (replaceColonDot (iso clk)) f1 of
                   (p, Inl e, evs2) \<Rightarrow> (Threw e, s\<lparr>logPath := p, fs := f1\<rparr>, evs @ evs2)
                 | (p, Inr f2, evs2) \<Rightarrow>
                     (Returned, s\<lparr>logPath := p, initialized := True, fs := f2\<rparr>, evs @ evs2))))"

definition divider :: string where
  "divider = concat (replicate 46 [CHR 0xE2, CHR 0x94, CHR 0x81])"

definition formatEntry :: "clock \<Rightarrow> logEntry \<Rightarrow> string" where
  "formatEntry clk e =
     [CHR 0x0A] @ divider @ [CHR 0x0A]
     @ [CHR 0xF0, CHR 0x9F, CHR 0xA7, CHR 0x91] @ ''   Persona: '' @ persona e @ [CHR 0x0A]
     @ [CHR 0xE2, CHR 0x8F, CHR 0xB0] @ ''      Time: '' @ localeString clk @ [CHR 0x0A]
     @ [CHR 0xF0, CHR 0x9F, CHR 0x94, CHR 0xB9] @ ''      User: '' @ trim (input e) @ [CHR 0x0A]
     @ [CHR 0xF0, CHR 0x9F, CHR 0x94, CHR 0xB8] @ '' Assistant: '' @ trim (response e) @ [CHR 0x0A]
     @ divider @ [CHR 0x0A]"

definition logInteraction ::
  "config \<Rightarrow> clock \<Rightarrow> state \<Rightarrow> logEntry \<Rightarrow> outcome \<times> state \<times> event list" where
  "logInteraction cfg clk s e =
     (if \<not> logging_enabled cfg then (Returned, s, [])
      else (case (if \<not> initialized s then initLogFile cfg clk s else (Returned, s, [])) of
              (Threw err, s1, evs) \<Rightarrow> (Threw err, s1, evs)
            | (Returned, s1, evs) \<Rightarrow>
                (case appendFileSync (logPath s1) (formatEntry clk e) (fs s1) of
                   Inl err \<Rightarrow>
                     (Returned, s1, evs @ [AppendFile (logPath s1) (formatEntry clk e), ConsoleError err])
                 | Inr f \<Rightarrow>
                     (Returned, s1\<lparr>fs := f\<rparr>, evs @ [AppendFile (logPath s1) (formatEntry clk e)]))))"

section \<open>The completion gateway and the turn (services/openaiClient.js, core/assistant.js)\<close>

definition getSasAssistantResponse ::
  "config \<Rightarrow> gateway \<Rightarrow> string \<Rightarrow> string \<Rightarrow> (error + string) \<times> event list" where
  "getSasAssistantResponse cfg gw promptText p =
     (let systemMessage = js_or (getProperty personas p) (getProperty personas (defaultPersona cfg));
          req = \<lparr> req_model = model cfg, system = systemMessage, user = promptText \<rparr>
      in (gw req, [GatewayCall req]))"

definition handlePrompt ::
  "config \<Rightarrow> gateway \<Rightarrow> clock \<Rightarrow> state \<Rightarrow> string \<Rightarrow> string \<Rightarrow> outcome \<times> state \<times> event list" where
  "handlePrompt cfg gw clk s promptText p =
     (case getSasAssistantResponse cfg gw promptText p of
        (Inl err, evs) \<Rightarrow> (Threw err, s, evs)
      | (Inr resp, evs) \<Rightarrow>
          (case logInteraction cfg clk s \<lparr> input = promptText, response = resp, persona = p \<rparr> of
             (r, s1, evs1) \<Rightarrow> (r, s1, evs @ [Render resp p] @ evs1)))"

section \<open>The line handler of the terminal (ui/terminal.js)\<close>

text \<open>
  The handler of the \<open>line\<close> event in \<open>startTerminal\<close>, in the version that has the help
  and mock commands. The handler is \<open>async\<close>: \<open>Threw\<close> is its rejection.
\<close>

definition welcomeLines :: "string \<Rightarrow> event list" where
  "welcomeLines selected =
     (if truthy (getProperty personaWelcomeMessages selected)
      then [Print (Welcome (getProperty personaWelcomeMessages selected))] else [])"

definition lineHandler ::
  "config \<Rightarrow> gateway \<Rightarrow> clock \<Rightarrow> state \<Rightarrow> string \<Rightarrow> outcome \<times> state \<times> event list" where
  "lineHandler cfg gw clk s line =
     (let command = trim line; lower = toLowerCase command in
      if command = [] then (Returned, s, [Print EmptyHint, Prompt])
      else if \<not> hasAlnum command then (Returned, s, [Print InvalidHint, Prompt])
      else if startsWith command ''/'' \<and> truthy (getProperty personas (slice1 command)) then
        (let selected = slice1 command in
         (Returned, s\<lparr>activePersona := selected\<rparr>,
          [Print (PersonaSwitched selected)] @ welcomeLines selected @ [SetPrompt selected, Prompt]))
      else if startsWith lower ''/persona '' then
        (let selected = js_string (index1 (split_space lower)) in
         if truthy (getProperty personas selected) then
           (Returned, s\<lparr>activePersona := selected\<rparr>,
            [Print (PersonaSwitched selected)] @ welcomeLines selected @ [SetPrompt selected, Prompt])
         else (Returned, s, [Print (UnknownPersona selected), Prompt]))
      else if command = ''/personas'' then
        (Returned, s,
         [Print PersonasHeader] @ map (\<lambda>(k, d). Print (PersonaLine k d)) personas
         @ [Print BlankLine, Prompt])
      else if command = ''/help'' \<or> command = ''help'' \<or> command = ''?'' then
        (Returned, s, [Print HelpText, Prompt])
      else if lower = ''/mock'' \<or> startsWith lower ''/mock '' then
        (let arg = index1 (split_space lower) in
         if arg = Some ''on'' then (Returned, s\<lparr>mock := True\<rparr>, [Print MockOn, Prompt])
         else if arg = Some ''off'' then (Returned, s\<lparr>mock := False\<rparr>, [Print MockOff, Prompt])
         else (Returned, s, [Print (MockStatus (mock s)), Print MockUsage, Prompt]))
      else if lower \<in> set (exitCommands cfg) then
        (Returned, s, [Print Farewell, Close])
      else
        (case handlePrompt cfg gw clk s line (activePersona s) of
           (Threw err, s1, evs) \<Rightarrow> (Threw err, s1, evs)
         | (Returned, s1, evs) \<Rightarrow> (Returned, s1, evs @ [Prompt])))"

text \<open>The \<open>SIGINT\<close> handler.\<close>

definition sigint :: "state \<Rightarrow> state \<times> event list" where
  "sigint s = (s, [Print SessionEnded, Close])"

text \<open>\<open>startTerminal\<close>: the state and the first prompt.\<close>

definition startTerminal :: "config \<Rightarrow> bool \<Rightarrow> filesystem \<Rightarrow> state \<times> event list" where
  "startTerminal cfg mock0 f =
     (\<lparr> activePersona = defaultPersona cfg, mock = mock0, logPath = [], initialized = False, fs = f \<rparr>,
      [SetPrompt (defaultPersona cfg), Prompt])"

text \<open>
  A session in which the lines are entered one at a time at the prompt: each line comes
  with the gateway and the clock of its turn and is handled to the end before the next
  one arrives, and none arrives once the stream is closed. (Lines that readline has
  already received when the handler is still waiting, or when \<open>rl.close()\<close> is called, are
  dispatched by readline all the same; such input is not a session of this kind.) A
  rejected handler is an unhandled rejection, which ends the process.
\<close>

fun run :: "config \<Rightarrow> state \<Rightarrow> (string \<times> gateway \<times> clock) list \<Rightarrow> outcome \<times> state \<times> event list" where
  "run cfg s [] = (Returned, s, [])"
| "run cfg s ((line, gw, clk) # rest) =
     (case lineHandler cfg gw clk s line of
        (Threw err, s1, evs) \<Rightarrow> (Threw err, s1, evs)
      | (Returned, s1, evs) \<Rightarrow>
          if Close \<in> set evs then (Returned, s1, evs)
          else (case run cfg s1 rest of (r, s2, evs2) \<Rightarrow> (r, s2, evs @ evs2)))"

section \<open>The retention pruner (clean-logs.ps1)\<close>

text \<open>
  Instants are \<open>DateTime\<close> ticks (100 ns), as integers; a \<open>DateTime\<close> holds the ticks from
  0 to \<open>maxTicks\<close>. The parameters of the script and the values it casts with \<open>[int]\<close> are
  \<open>Int32\<close>. The environment of the script:
  whether the \<open>.env\<close> file exists, and the integer values of \<open>LOG_RETENTION_MINUTES\<close> and
  \<open>LOG_RETENTION_DAYS\<close> in the process environment once that file is loaded (\<open>None\<close>
  when the variable is not set; a set variable is a non-empty string, which is true in
  a condition whatever its value).
\<close>

record script_env =
  envFileExists :: bool
  LOG_RETENTION_MINUTES :: "int option"
  LOG_RETENTION_DAYS :: "int option"

definition maxTicks :: int where
  "maxTicks = 3155378975999999999"

definition isDateTime :: "int \<Rightarrow> bool" where
  "isDateTime t = (0 \<le> t \<and> t \<le> maxTicks)"

definition isInt32 :: "int \<Rightarrow> bool" where
  "isInt32 v = (- 2147483648 \<le> v \<and> v \<le> 2147483647)"

definition ticksPerMinute :: int where
  "ticksPerMinute = 600000000"

definition ticksPerDay :: int where
  "ticksPerDay = 864000000000"

text \<open>
  Step 1: the pair \<open>($retentionDays, $retentionMinutes)\<close> after the \<open>.env\<close> fallback. A cast
  \<open>[int]\<close> of a value outside \<open>Int32\<close> fails, and the variable keeps its value.
\<close>

definition loadRetention :: "int \<Rightarrow> int \<Rightarrow> script_env \<Rightarrow> int \<times> int" where
  "loadRetention retentionDays retentionMinutes env =
     (if retentionDays = 0 \<and> retentionMinutes = 0 \<and> envFileExists env then
        (case LOG_RETENTION_MINUTES env of
           Some m \<Rightarrow> (retentionDays, if isInt32 m then m else retentionMinutes)
         | None \<Rightarrow>
             (case LOG_RETENTION_DAYS env of
                Some d \<Rightarrow> (if isInt32 d then d else retentionDays, retentionMinutes)
              | None \<Rightarrow> (retentionDays, retentionMinutes)))
      else (retentionDays, retentionMinutes))"

datatype retentionDisplay = DefaultDisplay | MinutesDisplay int | DaysDisplay int

text \<open>
  \<open>$now.AddMinutes(-n)\<close> and \<open>$now.AddDays(-n)\<close>, given the ticks to go back: the call throws
  (\<open>None\<close>) when the result is not a \<open>DateTime\<close>.
\<close>

definition subtractTicks :: "int \<Rightarrow> int \<Rightarrow> int option" where
  "subtractTicks now delta = (if isDateTime (now - delta) then Some (now - delta) else None)"

text \<open>
  Step 2: \<open>($threshold, $retentionDisplay)\<close>. \<open>$threshold\<close> is first set to seven days before
  \<open>$now\<close>, the reading of \<open>Get-Date\<close> (a current date, for which \<open>AddDays(-7)\<close> succeeds). When
  the later \<open>AddMinutes\<close> or \<open>AddDays\<close> throws, that assignment does not happen and the script
  goes on to the next statement.
\<close>

definition computeThreshold :: "int \<Rightarrow> int \<Rightarrow> int \<Rightarrow> int \<times> retentionDisplay" where
  "computeThreshold now retentionDays retentionMinutes =
     (if retentionMinutes > 0
      then (case subtractTicks now (retentionMinutes * ticksPerMinute) of
              Some t \<Rightarrow> t | None \<Rightarrow> now - 7 * ticksPerDay,
            MinutesDisplay retentionMinutes)
      else if retentionDays > 0
      then (case subtractTicks now (retentionDays * ticksPerDay) of
              Some t \<Rightarrow> t | None \<Rightarrow> now - 7 * ticksPerDay,
            DaysDisplay retentionDays)
      else (now - 7 * ticksPerDay, DefaultDisplay))"

text \<open>
  A file of the log directory: its name, its \<open>LastWriteTime\<close>, and whether \<open>Remove-Item\<close>
  succeeds on it. A failing \<open>Remove-Item\<close> writes a non-terminating error and the script
  block goes on.
\<close>

record logfile =
  fname :: string
  lastWriteTime :: int
  removable :: bool

datatype host_message =
    DirNotFound | Cleaning retentionDisplay | Deleting string | RemoveError string
  | NoneEligible | DeletedCount nat

text \<open>\<open>-Filter *.log\<close>\<close>

definition isLogName :: "string \<Rightarrow> bool" where
  "isLogName n = (length ''.log'' \<le> length n \<and> drop (length n - length ''.log'') n = ''.log'')"

definition eligible :: "int \<Rightarrow> logfile \<Rightarrow> bool" where
  "eligible threshold f = (isLogName (fname f) \<and> lastWriteTime f < threshold)"

text \<open>
  Step 3, the pipeline: the messages, the counter \<open>$deleted\<close> and the files left in the
  directory.
\<close>

fun removeEach :: "int \<Rightarrow> logfile list \<Rightarrow> host_message list \<times> nat \<times> logfile list" where
  "removeEach threshold [] = ([], 0, [])"
| "removeEach threshold (f # rest) =
     (case removeEach threshold rest of
        (msgs, deleted, left) \<Rightarrow>
          if eligible threshold f then
            (if removable f then (Deleting (fname f) # msgs, Suc deleted, left)
             else (Deleting (fname f) # RemoveError (fname f) # msgs, Suc deleted, f # left))
          else (msgs, deleted, f # left))"

text \<open>
  The script: \<open>None\<close> for the directory when \<open>logs\<close> does not exist. The result is the exit
  code, what was written to the host, and the directory afterwards.
\<close>

definition cleanLogs ::
  "int \<Rightarrow> int \<Rightarrow> script_env \<Rightarrow> int \<Rightarrow> logfile list option \<Rightarrow> nat \<times> host_message list \<times> logfile list option" where
  "cleanLogs retentionDays retentionMinutes env now dir =
     (case loadRetention retentionDays retentionMinutes env of
        (days, minutes) \<Rightarrow>
          (case dir of
             None \<Rightarrow> (1, [DirNotFound], None)
           | Some entries \<Rightarrow>
               (case computeThreshold now days minutes of
                  (threshold, display) \<Rightarrow>
                    (case removeEach threshold entries of
                       (msgs, deleted, left) \<Rightarrow>
                         (0, [Cleaning display] @ msgs
                             @ [if deleted = 0 then NoneEligible else DeletedCount deleted],
                          Some left)))))"

section \<open>Predicates used to state the properties\<close>

text \<open>A trimmed line matches a command pattern: one of the guards before the exit test.\<close>

definition isCommand :: "string \<Rightarrow> bool" where
  "isCommand command =
     ((startsWith command ''/'' \<and> truthy (getProperty personas (slice1 command)))
      \<or> startsWith (toLowerCase command) ''/persona ''
      \<or> command = ''/personas''
      \<or> command = ''/help'' \<or> command = ''help'' \<or> command = ''?''
      \<or> toLowerCase command = ''/mock'' \<or> startsWith (toLowerCase command) ''/mock '')"

text \<open>A free-text query line: non-empty, with a letter or digit, no command, no exit token.\<close>

definition isQuery :: "config \<Rightarrow> string \<Rightarrow> bool" where
  "isQuery cfg line =
     (trim line \<noteq> [] \<and> hasAlnum (trim line) \<and> \<not> isCommand (trim line)
      \<and> toLowerCase (trim line) \<notin> set (exitCommands cfg))"

fun isGatewayCall :: "event \<Rightarrow> bool" where
  "isGatewayCall (GatewayCall r) = True"
| "isGatewayCall ev = False"

text \<open>The request \<open>getSasAssistantResponse\<close> builds for a prompt under a persona.\<close>

definition requestFor :: "config \<Rightarrow> string \<Rightarrow> string \<Rightarrow> request" where
  "requestFor cfg promptText p =
     \<lparr> req_model = model cfg,
       system = js_or (getProperty personas p) (getProperty personas (defaultPersona cfg)),
       user = promptText \<rparr>"

abbreviation outcome_of :: "outcome \<times> state \<times> event list \<Rightarrow> outcome" where
  "outcome_of x \<equiv> fst x"

abbreviation state_of :: "outcome \<times> state \<times> event list \<Rightarrow> state" where
  "state_of x \<equiv> fst (snd x)"

abbreviation events_of :: "outcome \<times> state \<times> event list \<Rightarrow> event list" where
  "events_of x \<equiv> snd (snd x)"

text \<open>
  A sequence of \<open>logInteraction\<close> calls in one process, each with its clock readings and
  its entry. A call that throws ends the sequence.
\<close>

fun recordAll :: "config \<Rightarrow> state \<Rightarrow> (clock \<times> logEntry) list \<Rightarrow> outcome \<times> state \<times> event list" where
  "recordAll cfg s [] = (Returned, s, [])"
| "recordAll cfg s ((clk, e) # rest) =
     (case logInteraction cfg clk s e of
        (Threw err, s1, evs) \<Rightarrow> (Threw err, s1, evs)
      | (Returned, s1, evs) \<Rightarrow>
          (case recordAll cfg s1 rest of (r, s2, evs2) \<Rightarrow> (r, s2, evs @ evs2)))"

text \<open>The events of a call that only appends to the given path, or reports that it could not.\<close>

fun appendsTo :: "string \<Rightarrow> event \<Rightarrow> bool" where
  "appendsTo p (AppendFile q content) = (q = p)"
| "appendsTo p (ConsoleError err) = True"
| "appendsTo p ev = False"

text \<open>
  The form of \<open>Date.prototype.toISOString()\<close> for the years 0000 to 9999:
  \<open>YYYY-MM-DDTHH:mm:ss.sssZ\<close>, with \<open>d\<close> standing for a digit.
\<close>

definition isoPattern :: string where
  "isoPattern = ''dddd-dd-ddTdd:dd:dd.dddZ''"

definition matchesIso :: "char \<Rightarrow> char \<Rightarrow> bool" where
  "matchesIso c p = (if p = CHR ''d'' then isDigit c else c = p)"

definition isIsoString :: "string \<Rightarrow> bool" where
  "isIsoString s = list_all2 matchesIso s isoPattern"

text \<open>Two states that agree on everything but the mock flag.\<close>

definition sameExceptMock :: "state \<Rightarrow> state \<Rightarrow> bool" where
  "sameExceptMock s t =
     (activePersona s = activePersona t \<and> logPath s = logPath t
      \<and> initialized s = initialized t \<and> fs s = fs t)"

text \<open>A line that sets the mock flag, and two lines that are equal or both set it.\<close>

definition isMockSwitch :: "string \<Rightarrow> bool" where
  "isMockSwitch line =
     (toLowerCase (trim line) = ''/mock on'' \<or> toLowerCase (trim line) = ''/mock off'')"

definition mockVariant :: "string \<Rightarrow> string \<Rightarrow> bool" where
  "mockVariant l1 l2 = (l1 = l2 \<or> (isMockSwitch l1 \<and> isMockSwitch l2))"

text \<open>The threshold the script works with, from its parameters and its environment.\<close>

definition scriptThreshold :: "int \<Rightarrow> int \<Rightarrow> script_env \<Rightarrow> int \<Rightarrow> int" where
  "scriptThreshold retentionDays retentionMinutes env now =
     (case loadRetention retentionDays retentionMinutes env of
        (days, minutes) \<Rightarrow> fst (computeThreshold now days minutes))"

text \<open>The names in the \<open>Deleting\<close> messages, in order: the files \<open>Remove-Item\<close> was called on.\<close>

fun deletingNames :: "host_message list \<Rightarrow> string list" where
  "deletingNames [] = []"
| "deletingNames (Deleting n # ms) = n # deletingNames ms"
| "deletingNames (m # ms) = deletingNames ms"

abbreviation exitCode :: "nat \<times> host_message list \<times> logfile list option \<Rightarrow> nat" where
  "exitCode x \<equiv> fst x"

abbreviation hostMessages :: "nat \<times> host_message list \<times> logfile list option \<Rightarrow> host_message list" where
  "hostMessages x \<equiv> fst (snd x)"

abbreviation directoryAfter :: "nat \<times> host_message list \<times> logfile list option \<Rightarrow> logfile list option" where
  "directoryAfter x \<equiv> snd (snd x)"

section \<open>Example inputs\<close>

definition fs_empty :: filesystem where
  "fs_empty = \<lparr> dirs = {}, files = Map.empty, denied = {} \<rparr>"

definition fs_readonly :: filesystem where
  "fs_readonly = \<lparr> dirs = {}, files = Map.empty, denied = {''/app/logs''} \<rparr>"

definition fs_old_log :: filesystem where
  "fs_old_log = \<lparr> dirs = {''/app/logs''}, files = [''/app/logs/session.log'' \<mapsto> ''old run''], denied = {} \<rparr>"

definition clock1 :: clock where
  "clock1 = \<lparr> iso = ''2026-11-03T10:20:30.123Z'', localeString = ''11/3/2026, 10:20:30 AM'' \<rparr>"

definition clock2 :: clock where
  "clock2 = \<lparr> iso = ''2026-11-04T08:00:00.000Z'', localeString = ''11/4/2026, 8:00:00 AM'' \<rparr>"

definition gw_answer :: gateway where
  "gw_answer r = Inr ''Use PROC SORT.''"

definition gw_down :: gateway where
  "gw_down r = Inl (GatewayError ''ECONNREFUSED'')"

definition session0 :: state where
  "session0 = fst (startTerminal default_config False fs_empty)"

definition fs_locked_file :: filesystem where
  "fs_locked_file =
     \<lparr> dirs = {''/app/logs''}, files = [''/app/logs/session.log'' \<mapsto> ''old run''],
       denied = {''/app/logs/session.log''} \<rparr>"

definition session_readonly :: state where
  "session_readonly = fst (startTerminal default_config False fs_readonly)"

definition overwrite_config :: config where
  "overwrite_config = default_config\<lparr>logging_mode := ''overwrite''\<rparr>"

definition append_config :: config where
  "append_config = default_config\<lparr>logging_mode := ''append''\<rparr>"

definition session_locked :: state where
  "session_locked = fst (startTerminal overwrite_config False fs_locked_file)"

definition session_logging :: state where
  "session_logging = session_locked\<lparr>logPath := ''/app/logs/session.log'', initialized := True\<rparr>"

definition session_old_log :: state where
  "session_old_log = fst (startTerminal default_config False fs_old_log)"

definition entry1 :: logEntry where
  "entry1 = \<lparr> input = ''How do I sort?'', response = ''Use PROC SORT.'', persona = ''sas'' \<rparr>"

definition entry2 :: logEntry where
  "entry2 = \<lparr> input = ''And merge?'', response = ''Use MERGE with BY.'', persona = ''sas'' \<rparr>"

definition env_none :: script_env where
  "env_none = \<lparr> envFileExists = False, LOG_RETENTION_MINUTES = None, LOG_RETENTION_DAYS = None \<rparr>"





definition bye_config :: config where
  "bye_config = default_config\<lparr>exitCommands := [''exit'', ''Bye'']\<rparr>"

definition now0 :: int where
  "now0 = 639000000000000000"

definition old_log :: logfile where
  "old_log = \<lparr> fname = ''session_a.log'', lastWriteTime = now0 - 10 * ticksPerDay, removable = True \<rparr>"

definition locked_log :: logfile where
  "locked_log = \<lparr> fname = ''session_b.log'', lastWriteTime = now0 - 9 * ticksPerDay, removable = False \<rparr>"

definition recent_log :: logfile where
  "recent_log = \<lparr> fname = ''session_c.log'', lastWriteTime = now0 - 5 * ticksPerDay, removable = True \<rparr>"

definition notes_file :: logfile where
  "notes_file = \<lparr> fname = ''notes.txt'', lastWriteTime = now0 - 30 * ticksPerDay, removable = True \<rparr>"

section \<open>Properties of the session engine\<close>

lemma lineHandler_query:
  assumes "isQuery cfg line"
  shows "lineHandler cfg gw clk s line =
           (case handlePrompt cfg gw clk s line (activePersona s) of
              (Threw err, s1, evs) \<Rightarrow> (Threw err, s1, evs)
            | (Returned, s1, evs) \<Rightarrow> (Returned, s1, evs @ [Prompt]))"
  using assms by (auto simp: isQuery_def isCommand_def lineHandler_def Let_def)

lemma getSasAssistantResponse_eq:
  "getSasAssistantResponse cfg gw promptText p =
     (gw (requestFor cfg promptText p), [GatewayCall (requestFor cfg promptText p)])"
  by (simp add: getSasAssistantResponse_def requestFor_def Let_def)

lemma handlePrompt_failure:
  "gw (requestFor cfg promptText p) = Inl err \<Longrightarrow>
   handlePrompt cfg gw clk s promptText p = (Threw err, s, [GatewayCall (requestFor cfg promptText p)])"
  by (simp add: handlePrompt_def getSasAssistantResponse_eq)

lemma handlePrompt_success:
  "gw (requestFor cfg promptText p) = Inr resp \<Longrightarrow>
   handlePrompt cfg gw clk s promptText p =
     (case logInteraction cfg clk s \<lparr> input = promptText, response = resp, persona = p \<rparr> of
        (r, s1, evs1) \<Rightarrow> (r, s1, [GatewayCall (requestFor cfg promptText p), Render resp p] @ evs1))"
  by (simp add: handlePrompt_def getSasAssistantResponse_eq)

lemma ensureDir_no_gateway:
  "ensureDir d f = (r, evs) \<Longrightarrow> filter isGatewayCall evs = []"
  by (auto simp: ensureDir_def split: if_splits)

lemma selectLogPath_no_gateway:
  "selectLogPath cfg ts f = (p, r, evs) \<Longrightarrow> filter isGatewayCall evs = []"
  by (auto simp: selectLogPath_def Let_def split: if_splits)

lemma initLogFile_no_gateway:
  "initLogFile cfg clk s = (r, s1, evs) \<Longrightarrow> filter isGatewayCall evs = []"
  by (auto simp: initLogFile_def split: if_splits prod.splits sum.splits
      dest: ensureDir_no_gateway selectLogPath_no_gateway)

lemma logInteraction_no_gateway:
  "logInteraction cfg clk s e = (r, s1, evs) \<Longrightarrow> filter isGatewayCall evs = []"
  by (auto simp: logInteraction_def split: if_splits prod.splits sum.splits outcome.splits
      dest: initLogFile_no_gateway)

lemma registered_prompt_nonempty:
  "map_of personas p = Some prompt \<Longrightarrow> prompt \<noteq> []"
  by (auto simp: personas_def split: if_splits)

lemma registered_system_message:
  "map_of personas p = Some prompt \<Longrightarrow> system (requestFor cfg promptText p) = Str prompt"
  using registered_prompt_nonempty[of p prompt]
  by (simp add: requestFor_def getProperty_def js_or_def)

text \<open>
  C1. The claim: when the gateway call of a query line fails, the session reports the
  failure, stays alive and re-prompts. The code does none of this. For every query line
  and every failing gateway, the rejection leaves \<open>handlePrompt\<close> and the line handler:
  the only event is the gateway call, nothing is printed, and \<open>rl.prompt()\<close> is skipped.
\<close>

theorem gateway_failure_rejects_without_prompt:
  assumes "isQuery cfg line"
    and "gw (requestFor cfg line (activePersona s)) = Inl err"
  shows "lineHandler cfg gw clk s line =
           (Threw err, s, [GatewayCall (requestFor cfg line (activePersona s))])"
  using assms by (simp add: lineHandler_query handlePrompt_failure)

theorem gateway_failure_rejects_without_prompt_witness:
  "isQuery default_config ''hello''
   \<and> gw_down (requestFor default_config ''hello'' (activePersona session0)) = Inl (GatewayError ''ECONNREFUSED'')
   \<and> lineHandler default_config gw_down clock1 session0 ''hello'' =
       (Threw (GatewayError ''ECONNREFUSED''), session0,
        [GatewayCall (requestFor default_config ''hello'' (activePersona session0))])"
proof -
  have q: "isQuery default_config ''hello''" by code_simp
  have g: "gw_down (requestFor default_config ''hello'' (activePersona session0)) = Inl (GatewayError ''ECONNREFUSED'')"
    by (simp add: gw_down_def)
  show ?thesis
    using q g gateway_failure_rejects_without_prompt
      [where cfg = default_config and line = "''hello''" and gw = gw_down and s = session0
         and err = "GatewayError ''ECONNREFUSED''" and clk = clock1]
    by simp
qed

lemma lineHandler_query_success:
  assumes "isQuery cfg line"
    and "gw (requestFor cfg line (activePersona s)) = Inr resp"
    and "logInteraction cfg clk s \<lparr> input = line, response = resp, persona = activePersona s \<rparr> = (r, s1, logevs)"
  shows "lineHandler cfg gw clk s line =
           (r, s1, [GatewayCall (requestFor cfg line (activePersona s)), Render resp (activePersona s)]
                   @ logevs @ (if r = Returned then [Prompt] else []))"
  using assms by (cases r) (simp_all add: lineHandler_query handlePrompt_success)

text \<open>
  C2 (as amended). A query line makes exactly one gateway call. Its user text is the line as
  it was typed (not trimmed), its system message is the prompt of the active persona when
  that persona is registered; on success the result goes to the renderer, then to the
  logger, and the prompt follows when the logger returns.
\<close>

theorem query_calls_gateway_once:
  assumes "isQuery cfg line"
  shows "filter isGatewayCall (events_of (lineHandler cfg gw clk s line))
           = [GatewayCall (requestFor cfg line (activePersona s))]
         \<and> user (requestFor cfg line (activePersona s)) = line
         \<and> (map_of personas (activePersona s) = Some prompt \<longrightarrow>
              system (requestFor cfg line (activePersona s)) = Str prompt)
         \<and> (gw (requestFor cfg line (activePersona s)) = Inr resp \<longrightarrow>
              (case logInteraction cfg clk s \<lparr> input = line, response = resp, persona = activePersona s \<rparr> of
                 (r, s1, logevs) \<Rightarrow>
                   lineHandler cfg gw clk s line =
                     (r, s1, [GatewayCall (requestFor cfg line (activePersona s)), Render resp (activePersona s)]
                             @ logevs @ (if r = Returned then [Prompt] else []))))"
proof -
  let ?req = "requestFor cfg line (activePersona s)"
  have once: "filter isGatewayCall (events_of (lineHandler cfg gw clk s line)) = [GatewayCall ?req]"
  proof (cases "gw ?req")
    case (Inl err)
    then show ?thesis using assms by (simp add: lineHandler_query handlePrompt_failure)
  next
    case (Inr resp')
    obtain r s1 logevs where
      l: "logInteraction cfg clk s \<lparr> input = line, response = resp', persona = activePersona s \<rparr> = (r, s1, logevs)"
      by (metis prod_cases3)
    have "filter isGatewayCall logevs = []" using l by (rule logInteraction_no_gateway)
    then show ?thesis using lineHandler_query_success [where gw = gw and s = s, OF assms Inr l] by simp
  qed
  have usr: "user ?req = line" by (simp add: requestFor_def)
  have sys: "map_of personas (activePersona s) = Some prompt \<longrightarrow> system ?req = Str prompt"
    by (simp add: registered_system_message)
  have ok: "gw ?req = Inr resp \<longrightarrow>
              (case logInteraction cfg clk s \<lparr> input = line, response = resp, persona = activePersona s \<rparr> of
                 (r, s1, logevs) \<Rightarrow>
                   lineHandler cfg gw clk s line =
                     (r, s1, [GatewayCall ?req, Render resp (activePersona s)]
                             @ logevs @ (if r = Returned then [Prompt] else [])))"
    using lineHandler_query_success [where gw = gw and s = s and resp = resp and clk = clk, OF assms]
    by (auto split: prod.splits)
  show ?thesis using once usr sys ok by blast
qed

theorem query_calls_gateway_once_witness:
  "isQuery default_config ''  hello ''
   \<and> map_of personas (activePersona session0) = Some ''You are a helpful SAS programming assistant. Respond with clean, well-formatted explanations and SAS code.''
   \<and> gw_answer (requestFor default_config ''  hello '' (activePersona session0)) = Inr ''Use PROC SORT.''
   \<and> filter isGatewayCall (events_of (lineHandler default_config gw_answer clock1 session0 ''  hello ''))
       = [GatewayCall (requestFor default_config ''  hello '' (activePersona session0))]
   \<and> system (requestFor default_config ''  hello '' (activePersona session0))
       = Str ''You are a helpful SAS programming assistant. Respond with clean, well-formatted explanations and SAS code.''"
proof -
  have q: "isQuery default_config ''  hello ''" by code_simp
  have p: "map_of personas (activePersona session0) = Some ''You are a helpful SAS programming assistant. Respond with clean, well-formatted explanations and SAS code.''"
    by (simp add: session0_def startTerminal_def default_config_def personas_def)
  have g: "gw_answer (requestFor default_config ''  hello '' (activePersona session0)) = Inr ''Use PROC SORT.''"
    by (simp add: gw_answer_def)
  show ?thesis
    using q p g query_calls_gateway_once
      [where cfg = default_config and line = "''  hello ''" and gw = gw_answer and s = session0
         and clk = clock1 and resp = "''Use PROC SORT.''"
         and prompt = "''You are a helpful SAS programming assistant. Respond with clean, well-formatted explanations and SAS code.''"]
    by simp
qed

text \<open>
  C2 as stated fails: the user text of the call is the raw line, with its surrounding
  blanks, not the trimmed line.
\<close>

theorem query_user_text_counterexample:
  "filter isGatewayCall (events_of (lineHandler default_config gw_answer clock1 session0 ''  hello ''))
     = [GatewayCall \<lparr> req_model = ''gpt-5-mini'',
          system = Str ''You are a helpful SAS programming assistant. Respond with clean, well-formatted explanations and SAS code.'',
          user = ''  hello '' \<rparr>]
   \<and> trim ''  hello '' = ''hello''"
  by code_simp

subsection \<open>Strings\<close>

lemma of_char_toLowerChar:
  "(of_char (toLowerChar c) :: nat) = (if isUpper c then of_char c + 32 else of_char c)"
  by (simp add: toLowerChar_def isUpper_def)

lemma toLowerChar_eq_nonletter:
  assumes "\<not> isUpper d" and "\<not> isLower d"
  shows "toLowerChar c = d \<longleftrightarrow> c = d"
proof
  assume h: "toLowerChar c = d"
  show "c = d"
  proof (cases "isUpper c")
    case True
    have "(of_char d :: nat) = of_char c + 32"
      using h of_char_toLowerChar [of c] True by simp
    with True assms show ?thesis by (simp add: isUpper_def isLower_def)
  next
    case False
    then show ?thesis using h by (simp add: toLowerChar_def)
  qed
next
  assume "c = d"
  then show "toLowerChar c = d" using assms by (simp add: toLowerChar_def)
qed

lemma toLowerChar_space: "toLowerChar c = CHR '' '' \<longleftrightarrow> c = CHR '' ''"
  by (rule toLowerChar_eq_nonletter) (simp_all add: isUpper_def isLower_def)

lemma toLowerCase_append: "toLowerCase (a @ b) = toLowerCase a @ toLowerCase b"
  by (simp add: toLowerCase_def)

lemma toLowerCase_no_space:
  "CHR '' '' \<notin> set t \<Longrightarrow> CHR '' '' \<notin> set (toLowerCase t)"
proof
  assume "CHR '' '' \<notin> set t" and "CHR '' '' \<in> set (toLowerCase t)"
  then obtain c where "c \<in> set t" and "toLowerChar c = CHR '' ''"
    by (auto simp: toLowerCase_def)
  then show False using \<open>CHR '' '' \<notin> set t\<close> by (simp add: toLowerChar_space)
qed

lemma dropWhile_hd: "xs \<noteq> [] \<Longrightarrow> \<not> P (hd xs) \<Longrightarrow> dropWhile P xs = xs"
  by (cases xs) auto

lemma trim_id: "s \<noteq> [] \<Longrightarrow> \<not> isSpace (hd s) \<Longrightarrow> \<not> isSpace (last s) \<Longrightarrow> trim s = s"
  by (simp add: trim_def dropWhile_hd hd_rev)

lemma split_space_nospace: "CHR '' '' \<notin> set u \<Longrightarrow> split_space u = [u]"
  by (induction u) auto

lemma hasAlnum_append: "hasAlnum (a @ b) \<longleftrightarrow> hasAlnum a \<or> hasAlnum b"
  by (simp add: hasAlnum_def)

lemma not_space_slash: "\<not> isSpace CHR ''/''"
  by (simp add: isSpace_def)

lemma no_space_char: "\<not> list_ex isSpace t \<Longrightarrow> CHR '' '' \<notin> set t"
  by (auto simp: list_ex_iff isSpace_def)

lemma trim_persona_command:
  assumes "t \<noteq> []" and "\<not> list_ex isSpace t"
  shows "trim (''/persona '' @ t) = ''/persona '' @ t"
proof -
  have "\<not> isSpace (last t)" using assms by (auto simp: list_ex_iff)
  then have "\<not> isSpace (last (''/persona '' @ t))" using assms(1) by simp
  then show ?thesis by (intro trim_id) (simp_all add: not_space_slash)
qed

lemma isAlnum_toLowerChar:
  "(isLower (toLowerChar c) \<or> isUpper (toLowerChar c) \<or> isDigit (toLowerChar c))
   \<longleftrightarrow> (isLower c \<or> isUpper c \<or> isDigit c)"
proof (cases "isUpper c")
  case True
  then have "isLower (toLowerChar c)"
    using of_char_toLowerChar [of c] by (simp add: isLower_def isUpper_def)
  then show ?thesis using True by simp
next
  case False
  then show ?thesis by (simp add: toLowerChar_def)
qed

lemma hasAlnum_toLowerCase: "hasAlnum (toLowerCase s) \<longleftrightarrow> hasAlnum s"
  by (induction s) (simp_all add: hasAlnum_def toLowerCase_def isAlnum_toLowerChar)

lemma space_in_toLowerCase: "CHR '' '' \<in> set (toLowerCase s) \<Longrightarrow> CHR '' '' \<in> set s"
  using toLowerCase_no_space by blast

lemma toLowerCase_slice1: "toLowerCase (slice1 s) = slice1 (toLowerCase s)"
  by (simp add: toLowerCase_def slice1_def drop_map)

subsection \<open>The persona registry\<close>

lemma truthy_getProperty:
  "truthy (getProperty personas k) \<Longrightarrow> k \<in> set (map fst personas) \<or> k \<in> set object_prototype_keys"
  by (force simp: getProperty_def split: option.splits if_splits dest: map_of_SomeD)

lemma getProperty_unknown:
  "k \<notin> set (map fst personas) \<Longrightarrow> k \<notin> set object_prototype_keys \<Longrightarrow> getProperty personas k = Undefined"
  by (simp add: getProperty_def map_of_eq_None_iff [THEN iffD2])

lemma getProperty_persona_prefix:
  "getProperty personas (''persona '' @ t) = Undefined"
  by (simp add: getProperty_def personas_def object_prototype_keys_def)

lemma registered_cases:
  "p \<in> set (map fst personas) \<Longrightarrow>
   p = ''sas'' \<or> p = ''sql'' \<or> p = ''mentor'' \<or> p = ''debugger'' \<or> p = ''teacher''"
  by (auto simp: personas_def)

lemma registered_no_space: "k \<in> set (map fst personas) \<Longrightarrow> CHR '' '' \<notin> set k"
  using registered_cases [of k] by auto

lemma inherited_no_space: "k \<in> set object_prototype_keys \<Longrightarrow> CHR '' '' \<notin> set k"
  by (auto simp: object_prototype_keys_def)

lemma getProperty_with_space: "CHR '' '' \<in> set k \<Longrightarrow> getProperty personas k = Undefined"
  using registered_no_space [of k] inherited_no_space [of k]
  by (intro getProperty_unknown) blast+

lemmas js_string_defs =
  trim_def isSpace_def toLowerCase_def toLowerChar_def isUpper_def isLower_def isDigit_def
  hasAlnum_def startsWith_def slice1_def

lemma shorthand_switch:
  assumes "p \<in> set (map fst personas)"
  shows "lineHandler cfg gw clk s (''/'' @ p) =
           (Returned, s\<lparr>activePersona := p\<rparr>,
            [Print (PersonaSwitched p)] @ welcomeLines p @ [SetPrompt p, Prompt])"
  using registered_cases [OF assms]
  by (elim disjE) (simp_all add: lineHandler_def Let_def js_string_defs getProperty_def personas_def)

lemma persona_command_switch:
  assumes "p \<in> set (map fst personas)"
  shows "lineHandler cfg gw clk s (''/persona '' @ p) =
           (Returned, s\<lparr>activePersona := p\<rparr>,
            [Print (PersonaSwitched p)] @ welcomeLines p @ [SetPrompt p, Prompt])"
  using registered_cases [OF assms]
  by (elim disjE)
     (simp_all add: lineHandler_def Let_def js_string_defs getProperty_def personas_def
        object_prototype_keys_def)

lemma persona_command_unknown:
  assumes "t \<noteq> []" and "\<not> list_ex isSpace t"
    and "toLowerCase t \<notin> set (map fst personas)"
    and "toLowerCase t \<notin> set object_prototype_keys"
  shows "lineHandler cfg gw clk s (''/persona '' @ t) =
           (Returned, s, [Print (UnknownPersona (toLowerCase t)), Prompt])"
proof -
  let ?command = "''/persona '' @ t"
  have tr: "trim ?command = ?command" using assms(1,2) by (rule trim_persona_command)
  have al: "hasAlnum ?command"
    by (simp add: hasAlnum_def isUpper_def isLower_def isDigit_def)
  have b1: "\<not> truthy (getProperty personas (slice1 ?command))"
    using getProperty_persona_prefix [of t] by (simp add: slice1_def)
  have lo: "toLowerCase ?command = ''/persona '' @ toLowerCase t"
    by (simp add: toLowerCase_def toLowerChar_def isUpper_def)
  have sw: "startsWith (''/persona '' @ toLowerCase t) ''/persona ''"
    by (simp add: startsWith_def)
  have "CHR '' '' \<notin> set (toLowerCase t)"
    using assms(2) by (intro toLowerCase_no_space no_space_char)
  then have sel: "js_string (index1 (split_space (''/persona '' @ toLowerCase t))) = toLowerCase t"
    by (simp add: split_space_nospace)
  have un: "\<not> truthy (getProperty personas (toLowerCase t))"
    using assms(3,4) by (simp add: getProperty_unknown)
  have ne: "?command \<noteq> []" by simp
  show ?thesis
    unfolding lineHandler_def Let_def tr lo
    using al b1 sw sel un ne by simp
qed

subsection \<open>The session fields under the logger and the turn\<close>

lemma initLogFile_session:
  "initLogFile cfg clk s = (r, s1, evs) \<Longrightarrow> activePersona s1 = activePersona s \<and> mock s1 = mock s"
  by (auto simp: initLogFile_def split: if_splits prod.splits sum.splits)

lemma logInteraction_session:
  "logInteraction cfg clk s e = (r, s1, evs) \<Longrightarrow> activePersona s1 = activePersona s \<and> mock s1 = mock s"
  by (auto simp: logInteraction_def split: if_splits prod.splits sum.splits outcome.splits
      dest: initLogFile_session)

lemma handlePrompt_session:
  "handlePrompt cfg gw clk s promptText p = (r, s1, evs) \<Longrightarrow>
   activePersona s1 = activePersona s \<and> mock s1 = mock s"
  by (auto simp: handlePrompt_def getSasAssistantResponse_eq split: sum.splits prod.splits
      dest: logInteraction_session)

lemma lineHandler_activePersona:
  "activePersona (state_of (lineHandler cfg gw clk s line)) = activePersona s
   \<or> truthy (getProperty personas (activePersona (state_of (lineHandler cfg gw clk s line))))"
proof -
  obtain r s1 evs where h: "handlePrompt cfg gw clk s line (activePersona s) = (r, s1, evs)"
    by (metis prod_cases3)
  have "activePersona s1 = activePersona s" using handlePrompt_session [OF h] by simp
  then show ?thesis
    by (cases r) (simp_all add: lineHandler_def Let_def h)
qed

text \<open>
  C3 (as amended). For a registered persona \<open>p\<close>, \<open>/p\<close> and \<open>/persona p\<close> make \<open>p\<close> the active
  persona. For a token \<open>t\<close> without white space whose lower-case form is neither a registry
  key nor the name of a member inherited from \<open>Object.prototype\<close>, \<open>/persona t\<close> leaves
  the session as it was and reports the unknown persona. The active persona is a registry
  key at the start when the configured default is one, and a line keeps it a registry key
  unless it names an inherited member.
\<close>

theorem persona_switching:
  "(p \<in> set (map fst personas) \<longrightarrow>
      lineHandler cfg gw clk s (''/'' @ p) =
        (Returned, s\<lparr>activePersona := p\<rparr>,
         [Print (PersonaSwitched p)] @ welcomeLines p @ [SetPrompt p, Prompt])
      \<and> lineHandler cfg gw clk s (''/persona '' @ p) =
        (Returned, s\<lparr>activePersona := p\<rparr>,
         [Print (PersonaSwitched p)] @ welcomeLines p @ [SetPrompt p, Prompt]))
   \<and> (t \<noteq> [] \<and> \<not> list_ex isSpace t \<and> toLowerCase t \<notin> set (map fst personas)
        \<and> toLowerCase t \<notin> set object_prototype_keys \<longrightarrow>
      lineHandler cfg gw clk s (''/persona '' @ t) =
        (Returned, s, [Print (UnknownPersona (toLowerCase t)), Prompt]))
   \<and> (defaultPersona cfg \<in> set (map fst personas) \<longrightarrow>
      activePersona (fst (startTerminal cfg m f)) \<in> set (map fst personas))
   \<and> (activePersona s \<in> set (map fst personas)
        \<and> activePersona (state_of (lineHandler cfg gw clk s line)) \<notin> set object_prototype_keys \<longrightarrow>
      activePersona (state_of (lineHandler cfg gw clk s line)) \<in> set (map fst personas))"
proof (intro conjI impI)
  assume "p \<in> set (map fst personas)"
  then show "lineHandler cfg gw clk s (''/'' @ p) =
        (Returned, s\<lparr>activePersona := p\<rparr>,
         [Print (PersonaSwitched p)] @ welcomeLines p @ [SetPrompt p, Prompt])"
    by (rule shorthand_switch)
next
  assume "p \<in> set (map fst personas)"
  then show "lineHandler cfg gw clk s (''/persona '' @ p) =
        (Returned, s\<lparr>activePersona := p\<rparr>,
         [Print (PersonaSwitched p)] @ welcomeLines p @ [SetPrompt p, Prompt])"
    by (rule persona_command_switch)
next
  assume "t \<noteq> [] \<and> \<not> list_ex isSpace t \<and> toLowerCase t \<notin> set (map fst personas)
        \<and> toLowerCase t \<notin> set object_prototype_keys"
  then show "lineHandler cfg gw clk s (''/persona '' @ t) =
        (Returned, s, [Print (UnknownPersona (toLowerCase t)), Prompt])"
    by (intro persona_command_unknown) simp_all
next
  assume "defaultPersona cfg \<in> set (map fst personas)"
  then show "activePersona (fst (startTerminal cfg m f)) \<in> set (map fst personas)"
    by (simp add: startTerminal_def)
next
  assume a: "activePersona s \<in> set (map fst personas)
        \<and> activePersona (state_of (lineHandler cfg gw clk s line)) \<notin> set object_prototype_keys"
  let ?a = "activePersona (state_of (lineHandler cfg gw clk s line))"
  from lineHandler_activePersona [of cfg gw clk s line]
  show "?a \<in> set (map fst personas)"
  proof
    assume "?a = activePersona s"
    then show ?thesis using a by simp
  next
    assume "truthy (getProperty personas ?a)"
    then have "?a \<in> set (map fst personas) \<or> ?a \<in> set object_prototype_keys"
      by (rule truthy_getProperty)
    then show ?thesis using a by blast
  qed
qed

theorem persona_switching_witness:
  "''sql'' \<in> set (map fst personas)
   \<and> activePersona (state_of (lineHandler default_config gw_down clock1 session0 ''/sql'')) = ''sql''
   \<and> activePersona (state_of (lineHandler default_config gw_down clock1 session0 ''/persona sql'')) = ''sql''
   \<and> ''Pirate'' \<noteq> [] \<and> \<not> list_ex isSpace ''Pirate''
   \<and> toLowerCase ''Pirate'' \<notin> set (map fst personas)
   \<and> toLowerCase ''Pirate'' \<notin> set object_prototype_keys
   \<and> lineHandler default_config gw_down clock1 session0 ''/persona Pirate'' =
       (Returned, session0, [Print (UnknownPersona (toLowerCase ''Pirate'')), Prompt])
   \<and> defaultPersona default_config \<in> set (map fst personas)
   \<and> activePersona (fst (startTerminal default_config False fs_empty)) \<in> set (map fst personas)
   \<and> activePersona session0 \<in> set (map fst personas)
   \<and> activePersona (state_of (lineHandler default_config gw_down clock1 session0 ''/persona SQL''))
       \<notin> set object_prototype_keys
   \<and> activePersona (state_of (lineHandler default_config gw_down clock1 session0 ''/persona SQL''))
       \<in> set (map fst personas)"
proof -
  have h1: "''sql'' \<in> set (map fst personas)" by code_simp
  have h2: "''Pirate'' \<noteq> [] \<and> \<not> list_ex isSpace ''Pirate''
      \<and> toLowerCase ''Pirate'' \<notin> set (map fst personas)
      \<and> toLowerCase ''Pirate'' \<notin> set object_prototype_keys" by code_simp
  have h3: "defaultPersona default_config \<in> set (map fst personas)" by code_simp
  have h4: "activePersona session0 \<in> set (map fst personas)
      \<and> activePersona (state_of (lineHandler default_config gw_down clock1 session0 ''/persona SQL''))
          \<notin> set object_prototype_keys" by code_simp
  show ?thesis
    using h1 h2 h3 h4 persona_switching
      [where p = "''sql''" and t = "''Pirate''" and cfg = default_config and gw = gw_down
         and clk = clock1 and s = session0 and m = False and f = fs_empty
         and line = "''/persona SQL''"]
    by simp
qed

text \<open>
  C3 as stated fails: \<open>SAS\<close> is not a registry key, yet \<open>/persona SAS\<close> switches to \<open>sas\<close>,
  since the token is read from the lower-case copy of the line; and the active persona
  starts as the configured default, registered or not.
\<close>

theorem persona_switching_counterexample:
  "''SAS'' \<notin> set (map fst personas)
   \<and> activePersona (state_of (lineHandler default_config gw_down clock1
        (session0\<lparr>activePersona := ''sql''\<rparr>) ''/persona SAS'')) = ''sas''
   \<and> ''pirate'' \<notin> set (map fst personas)
   \<and> activePersona (fst (startTerminal (default_config\<lparr>defaultPersona := ''pirate''\<rparr>) False fs_empty))
       = ''pirate''"
  by code_simp

subsection \<open>Exit tokens\<close>

lemma hasAlnum_nonempty: "hasAlnum s \<Longrightarrow> s \<noteq> []"
  by (auto simp: hasAlnum_def)

lemma lineHandler_exit:
  assumes "hasAlnum (trim line)" and "\<not> isCommand (trim line)"
    and "toLowerCase (trim line) \<in> set (exitCommands cfg)"
  shows "lineHandler cfg gw clk s line = (Returned, s, [Print Farewell, Close])"
  using assms hasAlnum_nonempty [OF assms(1)]
  by (auto simp: isCommand_def lineHandler_def Let_def)

lemma persona_lines_no_farewell:
  "Print Farewell \<notin> (\<lambda>(k, d). Print (PersonaLine k d)) ` set xs"
  by auto

lemma persona_lines_without_close:
  "Close \<notin> (\<lambda>(k, d). Print (PersonaLine k d)) ` set xs"
  by auto

lemma initLogFile_no_exit:
  "initLogFile cfg clk s = (r, s1, evs) \<Longrightarrow> Close \<notin> set evs \<and> Print Farewell \<notin> set evs"
  by (auto simp: initLogFile_def ensureDir_def selectLogPath_def Let_def
      split: if_splits prod.splits sum.splits)

lemma logInteraction_no_exit:
  "logInteraction cfg clk s e = (r, s1, evs) \<Longrightarrow> Close \<notin> set evs \<and> Print Farewell \<notin> set evs"
  by (auto simp: logInteraction_def split: if_splits prod.splits sum.splits outcome.splits
      dest: initLogFile_no_exit)

lemma handlePrompt_no_exit:
  "handlePrompt cfg gw clk s promptText p = (r, s1, evs) \<Longrightarrow>
   Close \<notin> set evs \<and> Print Farewell \<notin> set evs"
  by (auto simp: handlePrompt_def getSasAssistantResponse_eq split: sum.splits prod.splits
      dest: logInteraction_no_exit)

lemma lineHandler_no_exit:
  assumes "toLowerCase (trim line) \<notin> set (exitCommands cfg)"
  shows "Close \<notin> set (events_of (lineHandler cfg gw clk s line))
         \<and> Print Farewell \<notin> set (events_of (lineHandler cfg gw clk s line))"
proof -
  obtain r s1 evs where h: "handlePrompt cfg gw clk s line (activePersona s) = (r, s1, evs)"
    by (metis prod_cases3)
  have q: "Close \<notin> set evs \<and> Print Farewell \<notin> set evs"
    using h by (rule handlePrompt_no_exit)
  have "Close \<notin> set (events_of (lineHandler cfg gw clk s line))"
    using assms q
    by (cases r) (simp_all add: lineHandler_def Let_def h welcomeLines_def persona_lines_without_close)
  moreover have "Print Farewell \<notin> set (events_of (lineHandler cfg gw clk s line))"
    using assms q
    by (cases r) (simp_all add: lineHandler_def Let_def h welcomeLines_def persona_lines_no_farewell)
  ultimately show ?thesis by blast
qed

text \<open>
  C5. The claim: for every configured exit token, every letter-case variant of it entered
  at the prompt prints the farewell and closes the input stream. The handler compares the
  lower-cased line with the tokens as they are configured, which are not lower-cased: a
  token whose lower-case form is not itself configured is never matched. Neither the
  token as it is written nor any other letter-case variant of it closes the stream or
  prints the farewell.
\<close>

theorem exit_token_not_lowercased:
  assumes "t \<in> set (exitCommands cfg)"
    and "toLowerCase (trim line) = toLowerCase t"
    and "toLowerCase t \<notin> set (exitCommands cfg)"
  shows "Close \<notin> set (events_of (lineHandler cfg gw clk s line))
         \<and> Print Farewell \<notin> set (events_of (lineHandler cfg gw clk s line))"
  using assms by (intro lineHandler_no_exit) simp

theorem exit_token_not_lowercased_witness:
  "''Bye'' \<in> set (exitCommands bye_config)
   \<and> toLowerCase (trim ''Bye'') = toLowerCase ''Bye''
   \<and> toLowerCase ''Bye'' \<notin> set (exitCommands bye_config)
   \<and> Close \<notin> set (events_of (lineHandler bye_config gw_down clock1 session0 ''Bye''))
   \<and> Print Farewell \<notin> set (events_of (lineHandler bye_config gw_down clock1 session0 ''Bye''))
   \<and> events_of (lineHandler bye_config gw_down clock1 session0 ''Bye'')
       = [GatewayCall (requestFor bye_config ''Bye'' ''sas'')]"
proof -
  have h: "''Bye'' \<in> set (exitCommands bye_config)
     \<and> toLowerCase (trim ''Bye'') = toLowerCase ''Bye''
     \<and> toLowerCase ''Bye'' \<notin> set (exitCommands bye_config)" by code_simp
  have e: "events_of (lineHandler bye_config gw_down clock1 session0 ''Bye'')
       = [GatewayCall (requestFor bye_config ''Bye'' ''sas'')]" by code_simp
  show ?thesis
    using h e exit_token_not_lowercased
      [where t = "''Bye''" and cfg = bye_config and line = "''Bye''" and gw = gw_down
         and clk = clock1 and s = session0]
    by simp
qed

text \<open>
  What does hold is \<open>lineHandler_exit\<close> above: a line whose lower-case form is itself among
  the configured tokens, and which matches no command pattern, takes the exit branch.
\<close>

lemma startsWith_slash_lower:
  assumes "startsWith command ''/''"
  shows "startsWith (toLowerCase command) ''/''"
proof -
  from assms obtain rest where "command = CHR ''/'' # rest"
    by (cases command) (simp_all add: startsWith_def)
  then show ?thesis
    by (simp add: startsWith_def toLowerCase_def toLowerChar_def isUpper_def)
qed

text \<open>
  With the exit tokens of the default configuration (\<open>exit\<close>, \<open>quit\<close>, \<open>q\<close>, \<open>:q\<close>) no
  side condition is left: every line that is one of them up to letter case and
  surrounding blanks ends the session.
\<close>

lemma default_exit_tokens_any_case:
  assumes "toLowerCase (trim line) \<in> set (exitCommands default_config)"
  shows "lineHandler default_config gw clk s line = (Returned, s, [Print Farewell, Close])"
proof -
  let ?command = "trim line"
  have t: "toLowerCase ?command = ''exit'' \<or> toLowerCase ?command = ''quit''
           \<or> toLowerCase ?command = ''q'' \<or> toLowerCase ?command = '':q''"
    using assms by (simp add: default_config_def)
  have "hasAlnum (toLowerCase ?command)"
    using t by (auto simp: hasAlnum_def isLower_def isUpper_def isDigit_def)
  then have al: "hasAlnum ?command" by (simp add: hasAlnum_toLowerCase)
  have c1: "\<not> startsWith ?command ''/''"
  proof
    assume "startsWith ?command ''/''"
    then have "startsWith (toLowerCase ?command) ''/''" by (rule startsWith_slash_lower)
    with t show False by (auto simp: startsWith_def)
  qed
  have c2: "\<not> startsWith (toLowerCase ?command) ''/persona ''
            \<and> toLowerCase ?command \<noteq> ''/mock''
            \<and> \<not> startsWith (toLowerCase ?command) ''/mock ''"
    using t by (auto simp: startsWith_def)
  have c3: "?command \<noteq> ''/personas''"
  proof
    assume "?command = ''/personas''"
    with t show False by (simp add: toLowerCase_def toLowerChar_def isUpper_def)
  qed
  have c4: "?command \<noteq> ''/help''"
  proof
    assume "?command = ''/help''"
    with t show False by (simp add: toLowerCase_def toLowerChar_def isUpper_def)
  qed
  have c5: "?command \<noteq> ''help''"
  proof
    assume "?command = ''help''"
    with t show False by (simp add: toLowerCase_def toLowerChar_def isUpper_def)
  qed
  have c6: "?command \<noteq> ''?''"
  proof
    assume "?command = ''?''"
    with t show False by (simp add: toLowerCase_def toLowerChar_def isUpper_def)
  qed
  have "\<not> isCommand ?command"
    using c1 c2 c3 c4 c5 c6 by (simp add: isCommand_def)
  then show ?thesis using al assms by (intro lineHandler_exit)
qed

section \<open>Properties of the logger\<close>

lemma logInteraction_initialized:
  assumes "logging_enabled cfg" and "initialized s"
  shows "outcome_of (logInteraction cfg clk s e) = Returned
         \<and> logPath (state_of (logInteraction cfg clk s e)) = logPath s
         \<and> initialized (state_of (logInteraction cfg clk s e))
         \<and> list_all (appendsTo (logPath s)) (events_of (logInteraction cfg clk s e))"
  using assms by (simp add: logInteraction_def split: sum.splits)

lemma initLogFile_returned:
  assumes "logging_enabled cfg" and "\<not> initialized s"
    and "initLogFile cfg clk s = (Returned, s1, evs)"
  shows "initialized s1"
  using assms by (auto simp: initLogFile_def split: prod.splits sum.splits)

lemma logInteraction_returned:
  assumes "logging_enabled cfg" and "logInteraction cfg clk s e = (Returned, s1, evs)"
  shows "initialized s1"
proof (cases "initialized s")
  case True
  then show ?thesis
    using assms logInteraction_initialized [OF assms(1) True, of clk e] by simp
next
  case False
  then show ?thesis
    using assms
    by (auto simp: logInteraction_def split: prod.splits sum.splits outcome.splits
        dest: initLogFile_returned)
qed

lemma recordAll_initialized:
  assumes "logging_enabled cfg" and "initialized s"
  shows "outcome_of (recordAll cfg s calls) = Returned
         \<and> logPath (state_of (recordAll cfg s calls)) = logPath s
         \<and> initialized (state_of (recordAll cfg s calls))
         \<and> list_all (appendsTo (logPath s)) (events_of (recordAll cfg s calls))"
  using assms(2)
proof (induction calls arbitrary: s)
  case Nil
  then show ?case by simp
next
  case (Cons c calls)
  obtain clk e where c: "c = (clk, e)" by (cases c)
  obtain r s1 evs where l: "logInteraction cfg clk s e = (r, s1, evs)" by (metis prod_cases3)
  have one: "r = Returned \<and> logPath s1 = logPath s \<and> initialized s1
             \<and> list_all (appendsTo (logPath s)) evs"
    using logInteraction_initialized [OF assms(1) Cons.prems, of clk e] l by simp
  then have "initialized s1" by simp
  from Cons.IH [OF this] one show ?case
    by (auto simp: c l split: prod.splits)
qed

text \<open>
  C7. With logging enabled, once a call of \<open>logInteraction\<close> has returned, the descriptor is
  resolved; every later call of the process returns, keeps the resolved path, and does
  nothing but append to that path (or report a failed append): no directory creation and
  no truncation happen again.
\<close>

theorem log_init_once:
  assumes "logging_enabled cfg"
    and "logInteraction cfg clk s e = (Returned, s1, evs1)"
  shows "initialized s1
         \<and> outcome_of (recordAll cfg s1 calls) = Returned
         \<and> logPath (state_of (recordAll cfg s1 calls)) = logPath s1
         \<and> initialized (state_of (recordAll cfg s1 calls))
         \<and> list_all (appendsTo (logPath s1)) (events_of (recordAll cfg s1 calls))"
  using logInteraction_returned [OF assms] recordAll_initialized [OF assms(1)] by simp

theorem log_init_once_witness:
  "logging_enabled default_config
   \<and> outcome_of (logInteraction default_config clock1 session0 entry1) = Returned
   \<and> initialized (state_of (logInteraction default_config clock1 session0 entry1))
   \<and> logPath (state_of (recordAll default_config
          (state_of (logInteraction default_config clock1 session0 entry1))
          [(clock2, entry2), (clock2, entry1)]))
       = logPath (state_of (logInteraction default_config clock1 session0 entry1))
   \<and> list_all (appendsTo (logPath (state_of (logInteraction default_config clock1 session0 entry1))))
        (events_of (recordAll default_config
          (state_of (logInteraction default_config clock1 session0 entry1))
          [(clock2, entry2), (clock2, entry1)]))"
proof -
  let ?first = "logInteraction default_config clock1 session0 entry1"
  have en: "logging_enabled default_config" by (simp add: default_config_def)
  have r: "outcome_of ?first = Returned" by code_simp
  have h: "?first = (Returned, state_of ?first, events_of ?first)"
    using r by (simp add: prod_eq_iff)
  show ?thesis
    using en r log_init_once [OF en h, of "[(clock2, entry2), (clock2, entry1)]"] by simp
qed

text \<open>
  C4. The claim: a failure while the log is written (directory creation, truncation,
  append) is caught and reported, and never leaves \<open>logInteraction\<close>. The code catches the
  failure of the append only: an initialised logger always returns, but when the
  directory cannot be created, or the file cannot be truncated under \<open>overwrite\<close>, the
  first call throws, and the logger reports nothing.
\<close>

theorem log_write_failures:
  "(logging_enabled cfg \<and> initialized s \<longrightarrow>
      outcome_of (logInteraction cfg clk s e) = Returned)
   \<and> (logging_enabled cfg \<and> \<not> initialized s \<and> logging_directory cfg \<notin> dirs (fs s)
        \<and> logging_directory cfg \<in> denied (fs s) \<longrightarrow>
      logInteraction cfg clk s e =
        (Threw (FsError (logging_directory cfg)), s, [Mkdir (logging_directory cfg)]))
   \<and> (logging_enabled cfg \<and> \<not> initialized s \<and> logging_directory cfg \<in> dirs (fs s)
        \<and> logging_mode cfg = ''overwrite''
        \<and> path_join (logging_directory cfg) (logging_filename cfg) \<in> denied (fs s) \<longrightarrow>
      outcome_of (logInteraction cfg clk s e)
        = Threw (FsError (path_join (logging_directory cfg) (logging_filename cfg)))
      \<and> events_of (logInteraction cfg clk s e)
        = [WriteFile (path_join (logging_directory cfg) (logging_filename cfg)) []])"
proof (intro conjI impI)
  assume "logging_enabled cfg \<and> initialized s"
  then show "outcome_of (logInteraction cfg clk s e) = Returned"
    using logInteraction_initialized [of cfg s clk e] by simp
next
  assume "logging_enabled cfg \<and> \<not> initialized s \<and> logging_directory cfg \<notin> dirs (fs s)
        \<and> logging_directory cfg \<in> denied (fs s)"
  then show "logInteraction cfg clk s e =
        (Threw (FsError (logging_directory cfg)), s, [Mkdir (logging_directory cfg)])"
    by (simp add: logInteraction_def initLogFile_def ensureDir_def mkdirSync_def)
next
  assume a: "logging_enabled cfg \<and> \<not> initialized s \<and> logging_directory cfg \<in> dirs (fs s)
        \<and> logging_mode cfg = ''overwrite''
        \<and> path_join (logging_directory cfg) (logging_filename cfg) \<in> denied (fs s)"
  then show "outcome_of (logInteraction cfg clk s e)
        = Threw (FsError (path_join (logging_directory cfg) (logging_filename cfg)))"
    by (simp add: logInteraction_def initLogFile_def ensureDir_def selectLogPath_def
        writeFileSync_def Let_def)
  from a show "events_of (logInteraction cfg clk s e)
        = [WriteFile (path_join (logging_directory cfg) (logging_filename cfg)) []]"
    by (simp add: logInteraction_def initLogFile_def ensureDir_def selectLogPath_def
        writeFileSync_def Let_def)
qed

theorem log_write_failures_witness:
  "logging_enabled overwrite_config \<and> initialized session_logging
   \<and> outcome_of (logInteraction overwrite_config clock1 session_logging entry1) = Returned
   \<and> logging_enabled default_config \<and> \<not> initialized session_readonly
   \<and> logging_directory default_config \<notin> dirs (fs session_readonly)
   \<and> logging_directory default_config \<in> denied (fs session_readonly)
   \<and> logInteraction default_config clock1 session_readonly entry1 =
       (Threw (FsError (logging_directory default_config)), session_readonly,
        [Mkdir (logging_directory default_config)])
   \<and> \<not> initialized session_locked \<and> logging_directory overwrite_config \<in> dirs (fs session_locked)
   \<and> logging_mode overwrite_config = ''overwrite''
   \<and> path_join (logging_directory overwrite_config) (logging_filename overwrite_config)
       \<in> denied (fs session_locked)
   \<and> outcome_of (logInteraction overwrite_config clock1 session_locked entry1)
       = Threw (FsError (path_join (logging_directory overwrite_config) (logging_filename overwrite_config)))
   \<and> outcome_of (lineHandler default_config gw_answer clock1 session_readonly ''hello'')
       = Threw (FsError ''/app/logs'')
   \<and> events_of (lineHandler default_config gw_answer clock1 session_readonly ''hello'')
       = [GatewayCall (requestFor default_config ''hello'' ''sas''),
          Render ''Use PROC SORT.'' ''sas'', Mkdir ''/app/logs'']"
proof -
  have h1: "logging_enabled overwrite_config \<and> initialized session_logging" by code_simp
  have h2: "logging_enabled default_config \<and> \<not> initialized session_readonly
     \<and> logging_directory default_config \<notin> dirs (fs session_readonly)
     \<and> logging_directory default_config \<in> denied (fs session_readonly)" by code_simp
  have h3: "\<not> initialized session_locked \<and> logging_directory overwrite_config \<in> dirs (fs session_locked)
     \<and> logging_mode overwrite_config = ''overwrite''
     \<and> path_join (logging_directory overwrite_config) (logging_filename overwrite_config)
         \<in> denied (fs session_locked)" by code_simp
  have h4: "outcome_of (lineHandler default_config gw_answer clock1 session_readonly ''hello'')
       = Threw (FsError ''/app/logs'')
     \<and> events_of (lineHandler default_config gw_answer clock1 session_readonly ''hello'')
       = [GatewayCall (requestFor default_config ''hello'' ''sas''),
          Render ''Use PROC SORT.'' ''sas'', Mkdir ''/app/logs'']" by code_simp
  show ?thesis
    using h1 h2 h3 h4
      log_write_failures [where cfg = overwrite_config and s = session_logging and clk = clock1 and e = entry1]
      log_write_failures [where cfg = default_config and s = session_readonly and clk = clock1 and e = entry1]
      log_write_failures [where cfg = overwrite_config and s = session_locked and clk = clock1 and e = entry1]
    by simp
qed

subsection \<open>The three modes\<close>

lemma matchesIso_inj:
  assumes "matchesIso x p" and "matchesIso y p"
    and "(if x = CHR '':'' \<or> x = CHR ''.'' then CHR ''-'' else x)
         = (if y = CHR '':'' \<or> y = CHR ''.'' then CHR ''-'' else y)"
  shows "x = y"
proof (cases "p = CHR ''d''")
  case True
  then have "isDigit x" and "isDigit y" using assms(1,2) by (simp_all add: matchesIso_def)
  then have "x \<noteq> CHR '':'' \<and> x \<noteq> CHR ''.'' \<and> y \<noteq> CHR '':'' \<and> y \<noteq> CHR ''.''"
    by (auto simp: isDigit_def)
  then show ?thesis using assms(3) by simp
next
  case False
  then show ?thesis using assms(1,2) by (simp add: matchesIso_def)
qed

lemma replaceColonDot_inj_on_pattern:
  "list_all2 matchesIso a pat \<Longrightarrow> list_all2 matchesIso b pat \<Longrightarrow>
   replaceColonDot a = replaceColonDot b \<Longrightarrow> a = b"
proof (induction pat arbitrary: a b)
  case Nil
  then show ?case by simp
next
  case (Cons p pat)
  from Cons.prems(1) obtain x a' where a: "a = x # a'" "matchesIso x p" "list_all2 matchesIso a' pat"
    by (auto simp: list_all2_Cons2)
  from Cons.prems(2) obtain y b' where b: "b = y # b'" "matchesIso y p" "list_all2 matchesIso b' pat"
    by (auto simp: list_all2_Cons2)
  from Cons.prems(3) a(1) b(1)
  have hd: "(if x = CHR '':'' \<or> x = CHR ''.'' then CHR ''-'' else x)
            = (if y = CHR '':'' \<or> y = CHR ''.'' then CHR ''-'' else y)"
    and tl: "replaceColonDot a' = replaceColonDot b'"
    by (simp_all add: replaceColonDot_def)
  have "x = y" using a(2) b(2) hd by (rule matchesIso_inj)
  moreover have "a' = b'" using a(3) b(3) tl by (rule Cons.IH)
  ultimately show ?case using a(1) b(1) by simp
qed

lemma replaceColonDot_inj:
  "isIsoString a \<Longrightarrow> isIsoString b \<Longrightarrow> replaceColonDot a = replaceColonDot b \<Longrightarrow> a = b"
  unfolding isIsoString_def by (rule replaceColonDot_inj_on_pattern)

lemma initLogFile_rotate:
  assumes "logging_enabled cfg" and "\<not> initialized s" and "logging_mode cfg = ''rotate''"
    and "outcome_of (initLogFile cfg clk s) = Returned"
  shows "logPath (state_of (initLogFile cfg clk s))
           = path_join (logging_directory cfg) (''session_'' @ replaceColonDot (iso clk) @ ''.log'')"
  using assms
  by (auto simp: initLogFile_def ensureDir_def selectLogPath_def mkdirSync_def
      split: if_splits)

lemma initLogFile_overwrite:
  assumes "logging_enabled cfg" and "\<not> initialized s" and "logging_mode cfg = ''overwrite''"
    and "outcome_of (initLogFile cfg clk s) = Returned"
  shows "logPath (state_of (initLogFile cfg clk s))
           = path_join (logging_directory cfg) (logging_filename cfg)
         \<and> files (fs (state_of (initLogFile cfg clk s)))
             (path_join (logging_directory cfg) (logging_filename cfg)) = Some []"
  using assms
  by (auto simp: initLogFile_def ensureDir_def selectLogPath_def mkdirSync_def
      writeFileSync_def Let_def split: if_splits)

lemma initLogFile_append:
  assumes "logging_enabled cfg" and "\<not> initialized s" and "logging_mode cfg = ''append''"
    and "outcome_of (initLogFile cfg clk s) = Returned"
  shows "logPath (state_of (initLogFile cfg clk s))
           = path_join (logging_directory cfg) (logging_filename cfg)
         \<and> files (fs (state_of (initLogFile cfg clk s))) = files (fs s)"
  using assms
  by (auto simp: initLogFile_def ensureDir_def selectLogPath_def mkdirSync_def
      split: if_splits)

text \<open>
  C6 (as amended). The first resolution of a process, when it returns: under \<open>overwrite\<close>
  the path is directory and configured file name and the file is empty afterwards,
  whatever it held; under \<open>rotate\<close> two processes whose clocks read different instants
  (well-formed ISO strings) at resolution get different paths; under \<open>append\<close> every
  process gets the same path, directory and configured file name, and the resolution
  leaves the contents of all files as they were.
\<close>

theorem log_modes:
  "(logging_enabled cfg \<and> \<not> initialized s \<and> logging_mode cfg = ''overwrite''
      \<and> outcome_of (initLogFile cfg clk s) = Returned \<longrightarrow>
      logPath (state_of (initLogFile cfg clk s))
        = path_join (logging_directory cfg) (logging_filename cfg)
      \<and> files (fs (state_of (initLogFile cfg clk s)))
          (path_join (logging_directory cfg) (logging_filename cfg)) = Some [])
   \<and> (logging_enabled cfg \<and> logging_mode cfg = ''rotate''
      \<and> \<not> initialized sa \<and> outcome_of (initLogFile cfg clka sa) = Returned
      \<and> \<not> initialized sb \<and> outcome_of (initLogFile cfg clkb sb) = Returned
      \<and> isIsoString (iso clka) \<and> isIsoString (iso clkb) \<and> iso clka \<noteq> iso clkb \<longrightarrow>
      logPath (state_of (initLogFile cfg clka sa)) \<noteq> logPath (state_of (initLogFile cfg clkb sb)))
   \<and> (logging_enabled cfg \<and> logging_mode cfg = ''append''
      \<and> \<not> initialized sa \<and> outcome_of (initLogFile cfg clka sa) = Returned
      \<and> \<not> initialized sb \<and> outcome_of (initLogFile cfg clkb sb) = Returned \<longrightarrow>
      logPath (state_of (initLogFile cfg clka sa))
        = path_join (logging_directory cfg) (logging_filename cfg)
      \<and> logPath (state_of (initLogFile cfg clkb sb)) = logPath (state_of (initLogFile cfg clka sa))
      \<and> files (fs (state_of (initLogFile cfg clka sa))) = files (fs sa)
      \<and> files (fs (state_of (initLogFile cfg clkb sb))) = files (fs sb))"
proof (intro conjI impI)
  assume a: "logging_enabled cfg \<and> \<not> initialized s \<and> logging_mode cfg = ''overwrite''
      \<and> outcome_of (initLogFile cfg clk s) = Returned"
  then show "logPath (state_of (initLogFile cfg clk s))
        = path_join (logging_directory cfg) (logging_filename cfg)"
    using initLogFile_overwrite [of cfg s clk] by simp
  from a show "files (fs (state_of (initLogFile cfg clk s)))
          (path_join (logging_directory cfg) (logging_filename cfg)) = Some []"
    using initLogFile_overwrite [of cfg s clk] by simp
next
  assume a: "logging_enabled cfg \<and> logging_mode cfg = ''rotate''
      \<and> \<not> initialized sa \<and> outcome_of (initLogFile cfg clka sa) = Returned
      \<and> \<not> initialized sb \<and> outcome_of (initLogFile cfg clkb sb) = Returned
      \<and> isIsoString (iso clka) \<and> isIsoString (iso clkb) \<and> iso clka \<noteq> iso clkb"
  then have "replaceColonDot (iso clka) \<noteq> replaceColonDot (iso clkb)"
    using replaceColonDot_inj [of "iso clka" "iso clkb"] by blast
  then show "logPath (state_of (initLogFile cfg clka sa)) \<noteq> logPath (state_of (initLogFile cfg clkb sb))"
    using a initLogFile_rotate [of cfg sa clka] initLogFile_rotate [of cfg sb clkb]
    by (simp add: path_join_def)
next
  assume a: "logging_enabled cfg \<and> logging_mode cfg = ''append''
      \<and> \<not> initialized sa \<and> outcome_of (initLogFile cfg clka sa) = Returned
      \<and> \<not> initialized sb \<and> outcome_of (initLogFile cfg clkb sb) = Returned"
  then show "logPath (state_of (initLogFile cfg clka sa))
        = path_join (logging_directory cfg) (logging_filename cfg)"
    using initLogFile_append [of cfg sa clka] by simp
  from a show "logPath (state_of (initLogFile cfg clkb sb)) = logPath (state_of (initLogFile cfg clka sa))"
    using initLogFile_append [of cfg sa clka] initLogFile_append [of cfg sb clkb] by simp
  from a show "files (fs (state_of (initLogFile cfg clka sa))) = files (fs sa)"
    using initLogFile_append [of cfg sa clka] by simp
  from a show "files (fs (state_of (initLogFile cfg clkb sb))) = files (fs sb)"
    using initLogFile_append [of cfg sb clkb] by simp
qed

theorem log_modes_witness:
  "logging_enabled overwrite_config \<and> \<not> initialized session_old_log
   \<and> logging_mode overwrite_config = ''overwrite''
   \<and> outcome_of (initLogFile overwrite_config clock1 session_old_log) = Returned
   \<and> files (fs session_old_log) ''/app/logs/session.log'' = Some ''old run''
   \<and> path_join (logging_directory overwrite_config) (logging_filename overwrite_config)
       = ''/app/logs/session.log''
   \<and> files (fs (state_of (initLogFile overwrite_config clock1 session_old_log)))
       ''/app/logs/session.log'' = Some []
   \<and> logging_enabled default_config \<and> logging_mode default_config = ''rotate''
   \<and> \<not> initialized session0 \<and> outcome_of (initLogFile default_config clock1 session0) = Returned
   \<and> outcome_of (initLogFile default_config clock2 session_old_log) = Returned
   \<and> isIsoString (iso clock1) \<and> isIsoString (iso clock2) \<and> iso clock1 \<noteq> iso clock2
   \<and> logPath (state_of (initLogFile default_config clock1 session0))
       \<noteq> logPath (state_of (initLogFile default_config clock2 session_old_log))
   \<and> logging_enabled append_config \<and> logging_mode append_config = ''append''
   \<and> outcome_of (initLogFile append_config clock1 session0) = Returned
   \<and> outcome_of (initLogFile append_config clock2 session_old_log) = Returned
   \<and> logPath (state_of (initLogFile append_config clock2 session_old_log))
       = logPath (state_of (initLogFile append_config clock1 session0))
   \<and> files (fs (state_of (initLogFile append_config clock2 session_old_log)))
       = files (fs session_old_log)"
proof -
  have h1: "logging_enabled overwrite_config \<and> \<not> initialized session_old_log
     \<and> logging_mode overwrite_config = ''overwrite''
     \<and> outcome_of (initLogFile overwrite_config clock1 session_old_log) = Returned
     \<and> path_join (logging_directory overwrite_config) (logging_filename overwrite_config)
         = ''/app/logs/session.log''" by code_simp
  have h2: "files (fs session_old_log) ''/app/logs/session.log'' = Some ''old run''"
    by (simp add: session_old_log_def startTerminal_def fs_old_log_def)
  have h3: "logging_enabled default_config \<and> logging_mode default_config = ''rotate''
     \<and> \<not> initialized session0 \<and> outcome_of (initLogFile default_config clock1 session0) = Returned
     \<and> outcome_of (initLogFile default_config clock2 session_old_log) = Returned
     \<and> isIsoString (iso clock1) \<and> isIsoString (iso clock2) \<and> iso clock1 \<noteq> iso clock2" by code_simp
  have h4: "logging_enabled append_config \<and> logging_mode append_config = ''append''
     \<and> outcome_of (initLogFile append_config clock1 session0) = Returned
     \<and> outcome_of (initLogFile append_config clock2 session_old_log) = Returned" by code_simp
  show ?thesis
    using h1 h2 h3 h4
      log_modes [where cfg = overwrite_config and s = session_old_log and clk = clock1]
      log_modes [where cfg = default_config and sa = session0 and clka = clock1
         and sb = session_old_log and clkb = clock2]
      log_modes [where cfg = append_config and sa = session0 and clka = clock1
         and sb = session_old_log and clkb = clock2]
    by simp
qed

text \<open>
  C6 as stated fails for \<open>rotate\<close>: the path is made from the clock reading alone, so two
  processes whose first log entry falls on the same instant resolve the same path. Here
  the second process starts on the file system the first one left.
\<close>

theorem log_rotate_counterexample:
  "logPath (state_of (lineHandler default_config gw_answer clock1 session0 ''hello''))
     = ''/app/logs/session_2026-11-03T10-20-30-123Z.log''
   \<and> logPath (state_of (lineHandler default_config gw_answer clock1
        (fst (startTerminal default_config False
           (fs (state_of (lineHandler default_config gw_answer clock1 session0 ''hello'')))))
        ''hello again''))
     = ''/app/logs/session_2026-11-03T10-20-30-123Z.log''"
  by code_simp

section \<open>The mock flag\<close>

lemma sameExceptMock_update: "sameExceptMock s t \<Longrightarrow> t = s\<lparr>mock := mock t\<rparr>"
  by (simp add: sameExceptMock_def)

lemma initLogFile_mock:
  "initLogFile cfg clk (s\<lparr>mock := b\<rparr>) =
     (case initLogFile cfg clk s of (r, s1, evs) \<Rightarrow> (r, s1\<lparr>mock := b\<rparr>, evs))"
  by (simp add: initLogFile_def split: prod.splits sum.splits)

lemma logInteraction_mock:
  "logInteraction cfg clk (s\<lparr>mock := b\<rparr>) e =
     (case logInteraction cfg clk s e of (r, s1, evs) \<Rightarrow> (r, s1\<lparr>mock := b\<rparr>, evs))"
  by (auto simp: logInteraction_def initLogFile_mock split: prod.splits sum.splits outcome.splits)

lemma handlePrompt_mock:
  "handlePrompt cfg gw clk (s\<lparr>mock := b\<rparr>) promptText p =
     (case handlePrompt cfg gw clk s promptText p of (r, s1, evs) \<Rightarrow> (r, s1\<lparr>mock := b\<rparr>, evs))"
  by (auto simp: handlePrompt_def logInteraction_mock split: prod.splits sum.splits)

lemma lineHandler_mock_eq:
  assumes "\<not> (toLowerCase (trim line) = ''/mock'' \<or> startsWith (toLowerCase (trim line)) ''/mock '')"
  shows "lineHandler cfg gw clk (s\<lparr>mock := b\<rparr>) line =
           (case lineHandler cfg gw clk s line of (r, s1, evs) \<Rightarrow> (r, s1\<lparr>mock := b\<rparr>, evs))"
proof -
  obtain r s1 evs where h: "handlePrompt cfg gw clk s line (activePersona s) = (r, s1, evs)"
    by (metis prod_cases3)
  then have h': "handlePrompt cfg gw clk (s\<lparr>mock := b\<rparr>) line (activePersona s) = (r, s1\<lparr>mock := b\<rparr>, evs)"
    by (simp add: handlePrompt_mock)
  show ?thesis
    using assms by (cases r) (simp_all add: lineHandler_def Let_def h h')
qed

lemma persona_lines_no_gateway:
  "filter isGatewayCall (map (\<lambda>(k, d). Print (PersonaLine k d)) xs) = []"
  by (induction xs) auto

lemma persona_lines_no_close:
  "Close \<notin> (\<lambda>(k, d). Print (PersonaLine k d)) ` set xs"
  by auto

lemma lineHandler_mock_guard:
  assumes "toLowerCase (trim line) = ''/mock'' \<or> startsWith (toLowerCase (trim line)) ''/mock ''"
  shows "outcome_of (lineHandler cfg gw clk s line) = Returned
    \<and> filter isGatewayCall (events_of (lineHandler cfg gw clk s line)) = []
    \<and> Close \<notin> set (events_of (lineHandler cfg gw clk s line))
    \<and> sameExceptMock (state_of (lineHandler cfg gw clk s line))
           (state_of (lineHandler cfg gw clk (s\<lparr>mock := b\<rparr>) line))"
proof -
  have "outcome_of (lineHandler cfg gw clk s line) = Returned"
    using assms by (simp add: lineHandler_def Let_def)
  moreover have "filter isGatewayCall (events_of (lineHandler cfg gw clk s line)) = []"
    using assms by (simp add: lineHandler_def Let_def welcomeLines_def persona_lines_no_gateway)
  moreover have "Close \<notin> set (events_of (lineHandler cfg gw clk s line))"
    using assms by (simp add: lineHandler_def Let_def welcomeLines_def persona_lines_no_close)
  moreover have "sameExceptMock (state_of (lineHandler cfg gw clk s line))
           (state_of (lineHandler cfg gw clk (s\<lparr>mock := b\<rparr>) line))"
    using assms by (simp add: lineHandler_def Let_def sameExceptMock_def)
  ultimately show ?thesis by blast
qed

lemma lineHandler_mock:
  "outcome_of (lineHandler cfg gw clk (s\<lparr>mock := b\<rparr>) line) = outcome_of (lineHandler cfg gw clk s line)
   \<and> sameExceptMock (state_of (lineHandler cfg gw clk s line))
        (state_of (lineHandler cfg gw clk (s\<lparr>mock := b\<rparr>) line))
   \<and> filter isGatewayCall (events_of (lineHandler cfg gw clk (s\<lparr>mock := b\<rparr>) line))
       = filter isGatewayCall (events_of (lineHandler cfg gw clk s line))
   \<and> (Close \<in> set (events_of (lineHandler cfg gw clk (s\<lparr>mock := b\<rparr>) line))
       \<longleftrightarrow> Close \<in> set (events_of (lineHandler cfg gw clk s line)))"
proof (cases "toLowerCase (trim line) = ''/mock'' \<or> startsWith (toLowerCase (trim line)) ''/mock ''")
  case True
  show ?thesis
    using lineHandler_mock_guard [OF True, where cfg = cfg and gw = gw and clk = clk and s = s and b = b]
      lineHandler_mock_guard [OF True, where cfg = cfg and gw = gw and clk = clk and s = "s\<lparr>mock := b\<rparr>" and b = b]
    by simp
next
  case False
  show ?thesis
    unfolding lineHandler_mock_eq [OF False]
    by (simp add: sameExceptMock_def split: prod.splits)
qed

lemma lineHandler_same_except_mock:
  assumes "sameExceptMock s t"
  shows "outcome_of (lineHandler cfg gw clk t line) = outcome_of (lineHandler cfg gw clk s line)
   \<and> sameExceptMock (state_of (lineHandler cfg gw clk s line)) (state_of (lineHandler cfg gw clk t line))
   \<and> filter isGatewayCall (events_of (lineHandler cfg gw clk t line))
       = filter isGatewayCall (events_of (lineHandler cfg gw clk s line))
   \<and> (Close \<in> set (events_of (lineHandler cfg gw clk t line))
       \<longleftrightarrow> Close \<in> set (events_of (lineHandler cfg gw clk s line)))"
  using lineHandler_mock [where cfg = cfg and gw = gw and clk = clk and s = s and b = "mock t" and line = line]
    sameExceptMock_update [OF assms]
  by simp

lemma lineHandler_mock_switch:
  assumes "toLowerCase (trim line) = ''/mock '' @ w" and "w = ''on'' \<or> w = ''off''"
  shows "lineHandler cfg gw clk s line =
           (Returned, s\<lparr>mock := (w = ''on'')\<rparr>, [Print (if w = ''on'' then MockOn else MockOff), Prompt])"
proof -
  let ?command = "trim line"
  have lo: "toLowerCase ?command = ''/mock on'' \<or> toLowerCase ?command = ''/mock off''"
    using assms by auto
  have ne: "?command \<noteq> []"
  proof
    assume "?command = []"
    with lo show False by (simp add: toLowerCase_def)
  qed
  have "hasAlnum (toLowerCase ?command)"
    using lo by (auto simp: hasAlnum_def isLower_def isUpper_def isDigit_def)
  then have al: "hasAlnum ?command" by (simp add: hasAlnum_toLowerCase)
  have "CHR '' '' \<in> set (slice1 (toLowerCase ?command))"
    using lo by (auto simp: slice1_def)
  then have "CHR '' '' \<in> set (toLowerCase (slice1 ?command))"
    by (simp add: toLowerCase_slice1)
  then have "CHR '' '' \<in> set (slice1 ?command)" by (rule space_in_toLowerCase)
  then have b1: "\<not> truthy (getProperty personas (slice1 ?command))"
    by (simp add: getProperty_with_space)
  have b2: "\<not> startsWith (toLowerCase ?command) ''/persona ''"
    using lo by (auto simp: startsWith_def)
  have b3a: "?command \<noteq> ''/personas''"
  proof
    assume "?command = ''/personas''"
    with lo show False by (simp add: toLowerCase_def toLowerChar_def isUpper_def)
  qed
  have b3b: "?command \<noteq> ''/help''"
  proof
    assume "?command = ''/help''"
    with lo show False by (simp add: toLowerCase_def toLowerChar_def isUpper_def)
  qed
  have b3c: "?command \<noteq> ''help''"
  proof
    assume "?command = ''help''"
    with lo show False by (simp add: toLowerCase_def toLowerChar_def isUpper_def)
  qed
  have b3d: "?command \<noteq> ''?''"
  proof
    assume "?command = ''?''"
    with lo show False by (simp add: toLowerCase_def toLowerChar_def isUpper_def)
  qed
  have b4: "startsWith (toLowerCase ?command) ''/mock ''"
    using lo by (auto simp: startsWith_def)
  have arg: "index1 (split_space (toLowerCase ?command)) = Some w"
    using assms by auto
  show ?thesis
  proof (cases "w = ''on''")
    case True
    then show ?thesis
      unfolding lineHandler_def Let_def
      by (simp add: ne al b1 b2 b3a b3b b3c b3d b4 arg)
  next
    case False
    then have "w = ''off''" using assms(2) by simp
    then show ?thesis
      unfolding lineHandler_def Let_def
      by (simp add: ne al b1 b2 b3a b3b b3c b3d b4 arg)
  qed
qed

lemma lineHandler_mock_variant:
  assumes "sameExceptMock s t" and "mockVariant l1 l2"
  shows "outcome_of (lineHandler cfg gw clk t l2) = outcome_of (lineHandler cfg gw clk s l1)
   \<and> sameExceptMock (state_of (lineHandler cfg gw clk s l1)) (state_of (lineHandler cfg gw clk t l2))
   \<and> filter isGatewayCall (events_of (lineHandler cfg gw clk t l2))
       = filter isGatewayCall (events_of (lineHandler cfg gw clk s l1))
   \<and> (Close \<in> set (events_of (lineHandler cfg gw clk t l2))
       \<longleftrightarrow> Close \<in> set (events_of (lineHandler cfg gw clk s l1)))"
proof (cases "l1 = l2")
  case True
  then show ?thesis using lineHandler_same_except_mock [OF assms(1)] by simp
next
  case False
  then have sw: "isMockSwitch l1" "isMockSwitch l2" using assms(2) by (simp_all add: mockVariant_def)
  from sw(1) obtain w1 where w1: "toLowerCase (trim l1) = ''/mock '' @ w1" "w1 = ''on'' \<or> w1 = ''off''"
    by (auto simp: isMockSwitch_def)
  from sw(2) obtain w2 where w2: "toLowerCase (trim l2) = ''/mock '' @ w2" "w2 = ''on'' \<or> w2 = ''off''"
    by (auto simp: isMockSwitch_def)
  show ?thesis
    using assms(1)
    by (simp add: lineHandler_mock_switch [OF w1] lineHandler_mock_switch [OF w2] sameExceptMock_def)
qed

lemma run_mock_variant:
  assumes "list_all2 mockVariant ls1 ls2"
  shows "sameExceptMock s t \<Longrightarrow>
     outcome_of (run cfg t (zip ls2 envs)) = outcome_of (run cfg s (zip ls1 envs))
     \<and> filter isGatewayCall (events_of (run cfg t (zip ls2 envs)))
         = filter isGatewayCall (events_of (run cfg s (zip ls1 envs)))
     \<and> sameExceptMock (state_of (run cfg s (zip ls1 envs))) (state_of (run cfg t (zip ls2 envs)))"
  using assms
proof (induction ls1 ls2 arbitrary: s t envs rule: list_all2_induct)
  case Nil
  then show ?case by simp
next
  case (Cons l1 ls1 l2 ls2)
  show ?case
  proof (cases envs)
    case Nil
    then show ?thesis using Cons.prems by simp
  next
    case (Cons env envs')
    obtain gw clk where env: "env = (gw, clk)" by (cases env)
    obtain r1 s1 e1 where h1: "lineHandler cfg gw clk s l1 = (r1, s1, e1)" by (metis prod_cases3)
    obtain r2 t1 e2 where h2: "lineHandler cfg gw clk t l2 = (r2, t1, e2)" by (metis prod_cases3)
    have step: "r2 = r1 \<and> sameExceptMock s1 t1
        \<and> filter isGatewayCall e2 = filter isGatewayCall e1
        \<and> (Close \<in> set e2 \<longleftrightarrow> Close \<in> set e1)"
      using lineHandler_mock_variant [OF Cons.prems \<open>mockVariant l1 l2\<close>, of cfg gw clk] h1 h2
      by simp
    show ?thesis
    proof (cases r1)
      case (Threw err)
      then show ?thesis using step by (simp add: Cons env h1 h2)
    next
      case Returned
      show ?thesis
      proof (cases "Close \<in> set e1")
        case True
        then show ?thesis using step Returned by (simp add: Cons env h1 h2)
      next
        case False
        have ih: "outcome_of (run cfg t1 (zip ls2 envs')) = outcome_of (run cfg s1 (zip ls1 envs'))
          \<and> filter isGatewayCall (events_of (run cfg t1 (zip ls2 envs')))
              = filter isGatewayCall (events_of (run cfg s1 (zip ls1 envs')))
          \<and> sameExceptMock (state_of (run cfg s1 (zip ls1 envs'))) (state_of (run cfg t1 (zip ls2 envs')))"
          using step by (intro Cons.IH) simp
        show ?thesis
          using step Returned False ih
          by (auto simp: Cons env h1 h2 split: prod.splits)
      qed
    qed
  qed
qed

text \<open>
  C10. The mock flag does not reach the query path. Two sessions that start from states
  equal up to the flag, and read line lists that are equal except where both have a
  \<open>/mock on\<close> or \<open>/mock off\<close> line, with the same gateway and clock at each turn, end the
  same way, make the same gateway calls and stay equal up to the flag. A turn under a
  changed flag has the same events, and a \<open>/mock on\<close> or \<open>/mock off\<close> line changes the flag
  and prints its confirmation, nothing else.
\<close>

theorem mock_flag_noninterference:
  assumes "sameExceptMock s t" and "list_all2 mockVariant ls1 ls2"
  shows "outcome_of (run cfg t (zip ls2 envs)) = outcome_of (run cfg s (zip ls1 envs))
     \<and> filter isGatewayCall (events_of (run cfg t (zip ls2 envs)))
         = filter isGatewayCall (events_of (run cfg s (zip ls1 envs)))
     \<and> sameExceptMock (state_of (run cfg s (zip ls1 envs))) (state_of (run cfg t (zip ls2 envs)))
     \<and> events_of (handlePrompt cfg gw clk (s\<lparr>mock := b\<rparr>) promptText p)
         = events_of (handlePrompt cfg gw clk s promptText p)
     \<and> (isMockSwitch line \<longrightarrow>
          lineHandler cfg gw clk s line =
            (Returned, s\<lparr>mock := (toLowerCase (trim line) = ''/mock on'')\<rparr>,
             [Print (if toLowerCase (trim line) = ''/mock on'' then MockOn else MockOff), Prompt]))"
proof -
  have turn: "events_of (handlePrompt cfg gw clk (s\<lparr>mock := b\<rparr>) promptText p)
         = events_of (handlePrompt cfg gw clk s promptText p)"
    by (simp add: handlePrompt_mock split: prod.splits)
  have switch: "isMockSwitch line \<longrightarrow>
          lineHandler cfg gw clk s line =
            (Returned, s\<lparr>mock := (toLowerCase (trim line) = ''/mock on'')\<rparr>,
             [Print (if toLowerCase (trim line) = ''/mock on'' then MockOn else MockOff), Prompt])"
  proof
    assume "isMockSwitch line"
    then obtain w where w: "toLowerCase (trim line) = ''/mock '' @ w" "w = ''on'' \<or> w = ''off''"
      by (auto simp: isMockSwitch_def)
    show "lineHandler cfg gw clk s line =
            (Returned, s\<lparr>mock := (toLowerCase (trim line) = ''/mock on'')\<rparr>,
             [Print (if toLowerCase (trim line) = ''/mock on'' then MockOn else MockOff), Prompt])"
      using lineHandler_mock_switch [OF w, of cfg gw clk s] w by auto
  qed
  show ?thesis
    using run_mock_variant [OF assms(2) assms(1), of cfg envs] turn switch by blast
qed

theorem mock_flag_noninterference_witness:
  "sameExceptMock session0 (session0\<lparr>mock := True\<rparr>)
   \<and> list_all2 mockVariant [''/mock on'', ''hello'', ''/sql'', ''What is a join?'']
        [''/MOCK off'', ''hello'', ''/sql'', ''What is a join?'']
   \<and> filter isGatewayCall (events_of (run default_config (session0\<lparr>mock := True\<rparr>)
          (zip [''/MOCK off'', ''hello'', ''/sql'', ''What is a join?'']
               [(gw_answer, clock1), (gw_answer, clock1), (gw_answer, clock2), (gw_answer, clock2)])))
       = filter isGatewayCall (events_of (run default_config session0
          (zip [''/mock on'', ''hello'', ''/sql'', ''What is a join?'']
               [(gw_answer, clock1), (gw_answer, clock1), (gw_answer, clock2), (gw_answer, clock2)])))
   \<and> filter isGatewayCall (events_of (run default_config session0
          (zip [''/mock on'', ''hello'', ''/sql'', ''What is a join?'']
               [(gw_answer, clock1), (gw_answer, clock1), (gw_answer, clock2), (gw_answer, clock2)])))
       = [GatewayCall (requestFor default_config ''hello'' ''sas''),
          GatewayCall (requestFor default_config ''What is a join?'' ''sql'')]
   \<and> isMockSwitch ''/mock on''
   \<and> lineHandler default_config gw_answer clock1 session0 ''/mock on'' =
       (Returned, session0\<lparr>mock := True\<rparr>, [Print MockOn, Prompt])"
proof -
  have h1: "sameExceptMock session0 (session0\<lparr>mock := True\<rparr>)"
    by (simp add: sameExceptMock_def)
  have h2: "list_all2 mockVariant [''/mock on'', ''hello'', ''/sql'', ''What is a join?'']
        [''/MOCK off'', ''hello'', ''/sql'', ''What is a join?'']" by code_simp
  have h3: "filter isGatewayCall (events_of (run default_config session0
          (zip [''/mock on'', ''hello'', ''/sql'', ''What is a join?'']
               [(gw_answer, clock1), (gw_answer, clock1), (gw_answer, clock2), (gw_answer, clock2)])))
       = [GatewayCall (requestFor default_config ''hello'' ''sas''),
          GatewayCall (requestFor default_config ''What is a join?'' ''sql'')]" by code_simp
  have h4: "isMockSwitch ''/mock on'' \<and> toLowerCase (trim ''/mock on'') = ''/mock on''" by code_simp
  show ?thesis
    using h1 h2 h3 h4
      mock_flag_noninterference [OF h1 h2, where cfg = default_config
        and envs = "[(gw_answer, clock1), (gw_answer, clock1), (gw_answer, clock2), (gw_answer, clock2)]"
        and gw = gw_answer and clk = clock1 and line = "''/mock on''"]
    by simp
qed

section \<open>Properties of the retention pruner\<close>

lemma removeEach_result:
  "removeEach th entries =
     (fst (removeEach th entries),
      length (filter (eligible th) entries),
      filter (\<lambda>f. \<not> (eligible th f \<and> removable f)) entries)"
  by (induction entries) (auto split: prod.splits)

lemma removeEach_deleting:
  "deletingNames (fst (removeEach th entries)) = map fname (filter (eligible th) entries)"
  by (induction entries) (auto split: prod.splits)

lemma deletingNames_append: "deletingNames (a @ b) = deletingNames a @ deletingNames b"
  by (induction a rule: deletingNames.induct) auto

lemma cleanLogs_existing:
  "cleanLogs d m env now (Some entries) =
     (0,
      [Cleaning (snd (case loadRetention d m env of (days, minutes) \<Rightarrow> computeThreshold now days minutes))]
      @ fst (removeEach (scriptThreshold d m env now) entries)
      @ [if filter (eligible (scriptThreshold d m env now)) entries = [] then NoneEligible
         else DeletedCount (length (filter (eligible (scriptThreshold d m env now)) entries))],
      Some (filter (\<lambda>f. \<not> (eligible (scriptThreshold d m env now) f \<and> removable f)) entries))"
proof -
  obtain days minutes where l: "loadRetention d m env = (days, minutes)" by (cases "loadRetention d m env")
  obtain th disp where c: "computeThreshold now days minutes = (th, disp)"
    by (cases "computeThreshold now days minutes")
  obtain msgs where r: "removeEach th entries =
     (msgs, length (filter (eligible th) entries),
      filter (\<lambda>f. \<not> (eligible th f \<and> removable f)) entries)"
    using removeEach_result [of th entries] by blast
  show ?thesis
    by (simp add: cleanLogs_def scriptThreshold_def l c r)
qed








lemma removeEach_no_DirNotFound: "DirNotFound \<notin> set (fst (removeEach th entries))"
  by (induction entries) (auto split: prod.splits)

lemma all_removed_count:
  assumes "\<forall>f\<in>set entries. eligible th f \<longrightarrow> removable f"
  shows "length entries - length (filter (\<lambda>f. \<not> (eligible th f \<and> removable f)) entries)
           = length (filter (eligible th) entries)"
proof -
  have "filter (\<lambda>f. \<not> (eligible th f \<and> removable f)) entries = filter (\<lambda>f. \<not> eligible th f) entries"
    using assms by (intro filter_cong) auto
  then show ?thesis
    using sum_length_filter_compl [of "eligible th" entries] by simp
qed

text \<open>
  C9 (as amended). On a missing directory the script writes the not-found message, which
  the run on an existing directory never writes, and stops with exit code 1 before any
  scan. On an existing directory it ends with exit code 0; \<open>Remove-Item\<close> is called on
  every eligible file, in order, whether or not earlier removals failed; the files left
  are those not eligible or not removable; with no eligible file the summary says so, and
  when every eligible file could be removed the summary gives the number of files
  deleted.
\<close>

theorem pruner_failure_policy:
  "cleanLogs d m env now None = (1, [DirNotFound], None)
   \<and> exitCode (cleanLogs d m env now (Some entries)) = 0
   \<and> DirNotFound \<notin> set (hostMessages (cleanLogs d m env now (Some entries)))
   \<and> deletingNames (hostMessages (cleanLogs d m env now (Some entries)))
       = map fname (filter (eligible (scriptThreshold d m env now)) entries)
   \<and> directoryAfter (cleanLogs d m env now (Some entries))
       = Some (filter (\<lambda>f. \<not> (eligible (scriptThreshold d m env now) f \<and> removable f)) entries)
   \<and> (filter (eligible (scriptThreshold d m env now)) entries = [] \<longrightarrow>
        last (hostMessages (cleanLogs d m env now (Some entries))) = NoneEligible)
   \<and> (filter (eligible (scriptThreshold d m env now)) entries \<noteq> []
        \<and> (\<forall>f\<in>set entries. eligible (scriptThreshold d m env now) f \<longrightarrow> removable f) \<longrightarrow>
        last (hostMessages (cleanLogs d m env now (Some entries)))
          = DeletedCount (length entries
              - length (filter (\<lambda>f. \<not> (eligible (scriptThreshold d m env now) f \<and> removable f)) entries)))"
proof -
  let ?th = "scriptThreshold d m env now"
  let ?run = "cleanLogs d m env now (Some entries)"
  have missing: "cleanLogs d m env now None = (1, [DirNotFound], None)"
    by (simp add: cleanLogs_def split: prod.splits)
  have code: "exitCode ?run = 0" by (simp add: cleanLogs_existing)
  have distinct: "DirNotFound \<notin> set (hostMessages ?run)"
    by (simp add: cleanLogs_existing removeEach_no_DirNotFound)
  have scan: "deletingNames (hostMessages ?run) = map fname (filter (eligible ?th) entries)"
    by (simp add: cleanLogs_existing deletingNames_append removeEach_deleting)
  have left: "directoryAfter ?run = Some (filter (\<lambda>f. \<not> (eligible ?th f \<and> removable f)) entries)"
    by (simp add: cleanLogs_existing)
  have none: "filter (eligible ?th) entries = [] \<longrightarrow> last (hostMessages ?run) = NoneEligible"
    by (simp add: cleanLogs_existing)
  have count: "filter (eligible ?th) entries \<noteq> []
        \<and> (\<forall>f\<in>set entries. eligible ?th f \<longrightarrow> removable f) \<longrightarrow>
        last (hostMessages ?run)
          = DeletedCount (length entries
              - length (filter (\<lambda>f. \<not> (eligible ?th f \<and> removable f)) entries))"
  proof
    assume a: "filter (eligible ?th) entries \<noteq> []
        \<and> (\<forall>f\<in>set entries. eligible ?th f \<longrightarrow> removable f)"
    then have "length entries - length (filter (\<lambda>f. \<not> (eligible ?th f \<and> removable f)) entries)
           = length (filter (eligible ?th) entries)"
      by (intro all_removed_count) simp
    then show "last (hostMessages ?run)
          = DeletedCount (length entries
              - length (filter (\<lambda>f. \<not> (eligible ?th f \<and> removable f)) entries))"
      using a by (simp add: cleanLogs_existing)
  qed
  show ?thesis using missing code distinct scan left none count by blast
qed

theorem pruner_failure_policy_witness:
  "cleanLogs 0 0 env_none now0 None = (1, [DirNotFound], None)
   \<and> scriptThreshold 0 0 env_none now0 = now0 - 7 * ticksPerDay
   \<and> filter (eligible (now0 - 7 * ticksPerDay)) [notes_file] = []
   \<and> last (hostMessages (cleanLogs 0 0 env_none now0 (Some [notes_file]))) = NoneEligible
   \<and> filter (eligible (now0 - 7 * ticksPerDay)) [old_log, recent_log, notes_file] = [old_log]
   \<and> removable old_log
   \<and> last (hostMessages (cleanLogs 0 0 env_none now0 (Some [old_log, recent_log, notes_file])))
       = DeletedCount 1
   \<and> directoryAfter (cleanLogs 0 0 env_none now0 (Some [old_log, recent_log, notes_file]))
       = Some [recent_log, notes_file]
   \<and> deletingNames (hostMessages (cleanLogs 0 0 env_none now0 (Some [locked_log, old_log])))
       = [''session_b.log'', ''session_a.log'']
   \<and> directoryAfter (cleanLogs 0 0 env_none now0 (Some [locked_log, old_log])) = Some [locked_log]"
proof -
  have th: "scriptThreshold 0 0 env_none now0 = now0 - 7 * ticksPerDay"
    by (simp add: scriptThreshold_def loadRetention_def computeThreshold_def env_none_def)
  have el: "eligible (now0 - 7 * ticksPerDay) old_log \<and> eligible (now0 - 7 * ticksPerDay) locked_log
      \<and> \<not> eligible (now0 - 7 * ticksPerDay) recent_log
      \<and> \<not> eligible (now0 - 7 * ticksPerDay) notes_file"
    by (simp add: eligible_def isLogName_def old_log_def locked_log_def recent_log_def
        notes_file_def ticksPerDay_def now0_def)
  have r: "removable old_log \<and> \<not> removable locked_log \<and> removable recent_log \<and> removable notes_file"
    by (simp add: old_log_def locked_log_def recent_log_def notes_file_def)
  have n: "fname locked_log = ''session_b.log'' \<and> fname old_log = ''session_a.log''"
    by (simp add: old_log_def locked_log_def)
  show ?thesis
    using th el r n
      pruner_failure_policy [where d = 0 and m = 0 and env = env_none and now = now0
        and entries = "[notes_file]"]
      pruner_failure_policy [where d = 0 and m = 0 and env = env_none and now = now0
        and entries = "[old_log, recent_log, notes_file]"]
      pruner_failure_policy [where d = 0 and m = 0 and env = env_none and now = now0
        and entries = "[locked_log, old_log]"]
    by simp
qed

text \<open>
  C9 as stated fails: on a missing directory the script stops with exit code 1, where a
  run that finds nothing to delete ends with 0; and the counter is raised after every
  \<open>Remove-Item\<close>, also one that failed, so the summary can count a file that is still there.
\<close>

theorem pruner_failure_policy_counterexample:
  "exitCode (cleanLogs 0 0 env_none now0 None) = 1
   \<and> exitCode (cleanLogs 0 0 env_none now0 (Some [])) = 0
   \<and> cleanLogs 0 0 env_none now0 (Some [locked_log]) =
       (0, [Cleaning DefaultDisplay, Deleting ''session_b.log'', RemoveError ''session_b.log'',
            DeletedCount 1],
        Some [locked_log])"
  by code_simp

end
